theory Spec2Isabelle
  imports Complex_Main
begin

section \<open>Fixed-size vectors and matrices\<close>

text \<open>
  The class template \<^verbatim>\<open>Sim3GroupBase\<close> of \<^verbatim>\<open>sophus/sim3.hpp\<close> is parameterised by a
  \<^verbatim>\<open>Scalar\<close> type. The embedding reads \<^verbatim>\<open>Scalar\<close> as the exact reals: every statement
  below is about the formulas the code evaluates, not about their rounding in \<^verbatim>\<open>float\<close>
  or \<^verbatim>\<open>double\<close>. The fixed-size Eigen types \<^verbatim>\<open>Matrix<Scalar,n,1>\<close> and
  \<^verbatim>\<open>Matrix<Scalar,n,n>\<close> become datatypes with exactly \<open>n\<close> coefficients, respectively
  \<open>n\<close> rows.
\<close>

datatype vec3 = Vec3 real real real

datatype vec4 = Vec4 real real real real

datatype vec7 = Vec7 real real real real real real real

datatype mat3 = Mat3 vec3 vec3 vec3

datatype mat4 = Mat4 vec4 vec4 vec4 vec4

datatype mat7 = Mat7 vec7 vec7 vec7 vec7 vec7 vec7 vec7

instantiation vec3 :: "{zero,plus,minus,uminus,scaleR}"
begin

definition zero_vec3 :: vec3 where
  "zero_vec3 = Vec3 0 0 0"

fun plus_vec3 :: "vec3 \<Rightarrow> vec3 \<Rightarrow> vec3" where
  "plus_vec3 (Vec3 a b c) (Vec3 d e f) = Vec3 (a + d) (b + e) (c + f)"

fun minus_vec3 :: "vec3 \<Rightarrow> vec3 \<Rightarrow> vec3" where
  "minus_vec3 (Vec3 a b c) (Vec3 d e f) = Vec3 (a - d) (b - e) (c - f)"

fun uminus_vec3 :: "vec3 \<Rightarrow> vec3" where
  "uminus_vec3 (Vec3 a b c) = Vec3 (- a) (- b) (- c)"

fun scaleR_vec3 :: "real \<Rightarrow> vec3 \<Rightarrow> vec3" where
  "scaleR_vec3 k (Vec3 a b c) = Vec3 (k * a) (k * b) (k * c)"

instance ..

end

text \<open>\<^verbatim>\<open>v * s\<close> for a vector \<open>v\<close> and a scalar \<open>s\<close> (Eigen multiplies coefficient-wise
  from the right).\<close>

fun vec3_times_scalar :: "vec3 \<Rightarrow> real \<Rightarrow> vec3" where
  "vec3_times_scalar (Vec3 a b c) k = Vec3 (a * k) (b * k) (c * k)"

fun dot3 :: "vec3 \<Rightarrow> vec3 \<Rightarrow> real" where
  "dot3 (Vec3 a b c) (Vec3 d e f) = a * d + b * e + c * f"

text \<open>\<^verbatim>\<open>a.cross(b)\<close> of Eigen.\<close>

fun cross :: "vec3 \<Rightarrow> vec3 \<Rightarrow> vec3" where
  "cross (Vec3 a b c) (Vec3 d e f) = Vec3 (b * f - c * e) (c * d - a * f) (a * e - b * d)"

text \<open>\<^verbatim>\<open>v.norm()\<close> of Eigen.\<close>

definition norm3 :: "vec3 \<Rightarrow> real" where
  "norm3 v = sqrt (dot3 v v)"

instantiation mat3 :: "{zero,one,plus,minus,uminus,times,scaleR}"
begin

definition zero_mat3 :: mat3 where
  "zero_mat3 = Mat3 0 0 0"

definition one_mat3 :: mat3 where
  "one_mat3 = Mat3 (Vec3 1 0 0) (Vec3 0 1 0) (Vec3 0 0 1)"

fun plus_mat3 :: "mat3 \<Rightarrow> mat3 \<Rightarrow> mat3" where
  "plus_mat3 (Mat3 a b c) (Mat3 d e f) = Mat3 (a + d) (b + e) (c + f)"

fun minus_mat3 :: "mat3 \<Rightarrow> mat3 \<Rightarrow> mat3" where
  "minus_mat3 (Mat3 a b c) (Mat3 d e f) = Mat3 (a - d) (b - e) (c - f)"

fun uminus_mat3 :: "mat3 \<Rightarrow> mat3" where
  "uminus_mat3 (Mat3 a b c) = Mat3 (- a) (- b) (- c)"

fun scaleR_mat3 :: "real \<Rightarrow> mat3 \<Rightarrow> mat3" where
  "scaleR_mat3 k (Mat3 a b c) = Mat3 (k *\<^sub>R a) (k *\<^sub>R b) (k *\<^sub>R c)"

fun times_mat3 :: "mat3 \<Rightarrow> mat3 \<Rightarrow> mat3" where
  "times_mat3 (Mat3 (Vec3 a00 a01 a02) (Vec3 a10 a11 a12) (Vec3 a20 a21 a22))
              (Mat3 (Vec3 b00 b01 b02) (Vec3 b10 b11 b12) (Vec3 b20 b21 b22)) =
     Mat3 (Vec3 (a00 * b00 + a01 * b10 + a02 * b20)
                (a00 * b01 + a01 * b11 + a02 * b21)
                (a00 * b02 + a01 * b12 + a02 * b22))
          (Vec3 (a10 * b00 + a11 * b10 + a12 * b20)
                (a10 * b01 + a11 * b11 + a12 * b21)
                (a10 * b02 + a11 * b12 + a12 * b22))
          (Vec3 (a20 * b00 + a21 * b10 + a22 * b20)
                (a20 * b01 + a21 * b11 + a22 * b21)
                (a20 * b02 + a21 * b12 + a22 * b22))"

instance ..

end

text \<open>Matrix times column vector.\<close>

fun mat3_vec :: "mat3 \<Rightarrow> vec3 \<Rightarrow> vec3" where
  "mat3_vec (Mat3 r0 r1 r2) v = Vec3 (dot3 r0 v) (dot3 r1 v) (dot3 r2 v)"

instantiation vec7 :: "{zero,plus,minus}"
begin

definition zero_vec7 :: vec7 where
  "zero_vec7 = Vec7 0 0 0 0 0 0 0"

fun plus_vec7 :: "vec7 \<Rightarrow> vec7 \<Rightarrow> vec7" where
  "plus_vec7 (Vec7 a0 a1 a2 a3 a4 a5 a6) (Vec7 b0 b1 b2 b3 b4 b5 b6) =
     Vec7 (a0 + b0) (a1 + b1) (a2 + b2) (a3 + b3) (a4 + b4) (a5 + b5) (a6 + b6)"

fun minus_vec7 :: "vec7 \<Rightarrow> vec7 \<Rightarrow> vec7" where
  "minus_vec7 (Vec7 a0 a1 a2 a3 a4 a5 a6) (Vec7 b0 b1 b2 b3 b4 b5 b6) =
     Vec7 (a0 - b0) (a1 - b1) (a2 - b2) (a3 - b3) (a4 - b4) (a5 - b5) (a6 - b6)"

instance ..

end

fun dot7 :: "vec7 \<Rightarrow> vec7 \<Rightarrow> real" where
  "dot7 (Vec7 a0 a1 a2 a3 a4 a5 a6) (Vec7 b0 b1 b2 b3 b4 b5 b6) =
     a0 * b0 + a1 * b1 + a2 * b2 + a3 * b3 + a4 * b4 + a5 * b5 + a6 * b6"

fun mat7_vec :: "mat7 \<Rightarrow> vec7 \<Rightarrow> vec7" where
  "mat7_vec (Mat7 r0 r1 r2 r3 r4 r5 r6) v =
     Vec7 (dot7 r0 v) (dot7 r1 v) (dot7 r2 v) (dot7 r3 v) (dot7 r4 v) (dot7 r5 v) (dot7 r6 v)"

subsection \<open>Segments and blocks\<close>

text \<open>Reading: \<^verbatim>\<open>v.head<3>()\<close>, \<^verbatim>\<open>v.segment<3>(3)\<close>, \<^verbatim>\<open>v[6]\<close> and \<^verbatim>\<open>v.tail<4>()\<close> of a
  7-vector.\<close>

fun head3 :: "vec7 \<Rightarrow> vec3" where
  "head3 (Vec7 a0 a1 a2 a3 a4 a5 a6) = Vec3 a0 a1 a2"

fun segment3 :: "vec7 \<Rightarrow> vec3" where
  "segment3 (Vec7 a0 a1 a2 a3 a4 a5 a6) = Vec3 a3 a4 a5"

fun coeff6 :: "vec7 \<Rightarrow> real" where
  "coeff6 (Vec7 a0 a1 a2 a3 a4 a5 a6) = a6"

fun tail4 :: "vec7 \<Rightarrow> vec4" where
  "tail4 (Vec7 a0 a1 a2 a3 a4 a5 a6) = Vec4 a3 a4 a5 a6"

text \<open>Reading \<^verbatim>\<open>v.head<3>()\<close> and \<^verbatim>\<open>v[3]\<close> of a 4-vector, and \<^verbatim>\<open>v[0]\<close> of a 3-vector and of
  a 7-vector.\<close>

fun vec4_head3 :: "vec4 \<Rightarrow> vec3" where
  "vec4_head3 (Vec4 a b c d) = Vec3 a b c"

fun vec4_coeff3 :: "vec4 \<Rightarrow> real" where
  "vec4_coeff3 (Vec4 a b c d) = d"

fun vec3_coeff0 :: "vec3 \<Rightarrow> real" where
  "vec3_coeff0 (Vec3 a b c) = a"

fun coeff0 :: "vec7 \<Rightarrow> real" where
  "coeff0 (Vec7 a0 a1 a2 a3 a4 a5 a6) = a0"

text \<open>Writing: \<^verbatim>\<open>v.head<3>() = h\<close>, \<^verbatim>\<open>v.segment<3>(3) = s\<close>, \<^verbatim>\<open>v.tail<4>() = t\<close> and
  \<^verbatim>\<open>v[6] = c\<close>.\<close>

fun set_head3 :: "vec3 \<Rightarrow> vec7 \<Rightarrow> vec7" where
  "set_head3 (Vec3 h0 h1 h2) (Vec7 a0 a1 a2 a3 a4 a5 a6) = Vec7 h0 h1 h2 a3 a4 a5 a6"

fun set_segment3 :: "vec3 \<Rightarrow> vec7 \<Rightarrow> vec7" where
  "set_segment3 (Vec3 s0 s1 s2) (Vec7 a0 a1 a2 a3 a4 a5 a6) = Vec7 a0 a1 a2 s0 s1 s2 a6"

fun set_tail4 :: "vec4 \<Rightarrow> vec7 \<Rightarrow> vec7" where
  "set_tail4 (Vec4 t0 t1 t2 t3) (Vec7 a0 a1 a2 a3 a4 a5 a6) = Vec7 a0 a1 a2 t0 t1 t2 t3"

fun set_coeff6 :: "real \<Rightarrow> vec7 \<Rightarrow> vec7" where
  "set_coeff6 c (Vec7 a0 a1 a2 a3 a4 a5 a6) = Vec7 a0 a1 a2 a3 a4 a5 c"

text \<open>Blocks of a 7x7 matrix that start at row 0 or 3: \<^verbatim>\<open>topLeftCorner<3,3>()\<close>,
  \<^verbatim>\<open>block<3,3>(0,3)\<close>, \<^verbatim>\<open>topRightCorner<3,1>()\<close> and \<^verbatim>\<open>block<3,3>(3,3)\<close>.\<close>

fun set_topLeftCorner33 :: "mat3 \<Rightarrow> mat7 \<Rightarrow> mat7" where
  "set_topLeftCorner33 (Mat3 b0 b1 b2) (Mat7 r0 r1 r2 r3 r4 r5 r6) =
     Mat7 (set_head3 b0 r0) (set_head3 b1 r1) (set_head3 b2 r2) r3 r4 r5 r6"

fun set_block33_0_3 :: "mat3 \<Rightarrow> mat7 \<Rightarrow> mat7" where
  "set_block33_0_3 (Mat3 b0 b1 b2) (Mat7 r0 r1 r2 r3 r4 r5 r6) =
     Mat7 (set_segment3 b0 r0) (set_segment3 b1 r1) (set_segment3 b2 r2) r3 r4 r5 r6"

fun set_topRightCorner31 :: "vec3 \<Rightarrow> mat7 \<Rightarrow> mat7" where
  "set_topRightCorner31 (Vec3 c0 c1 c2) (Mat7 r0 r1 r2 r3 r4 r5 r6) =
     Mat7 (set_coeff6 c0 r0) (set_coeff6 c1 r1) (set_coeff6 c2 r2) r3 r4 r5 r6"

fun set_block33_3_3 :: "mat3 \<Rightarrow> mat7 \<Rightarrow> mat7" where
  "set_block33_3_3 (Mat3 b0 b1 b2) (Mat7 r0 r1 r2 r3 r4 r5 r6) =
     Mat7 r0 r1 r2 (set_segment3 b0 r3) (set_segment3 b1 r4) (set_segment3 b2 r5) r6"

definition mat7_setZero :: mat7 where
  "mat7_setZero = Mat7 0 0 0 0 0 0 0"

text \<open>Blocks of a 4x4 matrix: \<^verbatim>\<open>topLeftCorner<3,3>()\<close> and \<^verbatim>\<open>col(3).head<3>()\<close>, read and
  written, and \<^verbatim>\<open>row(3).setZero()\<close>.\<close>

fun topLeftCorner33 :: "mat4 \<Rightarrow> mat3" where
  "topLeftCorner33 (Mat4 (Vec4 m00 m01 m02 m03) (Vec4 m10 m11 m12 m13)
                         (Vec4 m20 m21 m22 m23) (Vec4 m30 m31 m32 m33)) =
     Mat3 (Vec3 m00 m01 m02) (Vec3 m10 m11 m12) (Vec3 m20 m21 m22)"

fun col3_head3 :: "mat4 \<Rightarrow> vec3" where
  "col3_head3 (Mat4 (Vec4 m00 m01 m02 m03) (Vec4 m10 m11 m12 m13)
                    (Vec4 m20 m21 m22 m23) (Vec4 m30 m31 m32 m33)) = Vec3 m03 m13 m23"

fun row3 :: "mat4 \<Rightarrow> vec4" where
  "row3 (Mat4 r0 r1 r2 r3) = r3"

fun set_topLeftCorner33_mat4 :: "mat3 \<Rightarrow> mat4 \<Rightarrow> mat4" where
  "set_topLeftCorner33_mat4 (Mat3 (Vec3 b00 b01 b02) (Vec3 b10 b11 b12) (Vec3 b20 b21 b22))
       (Mat4 (Vec4 m00 m01 m02 m03) (Vec4 m10 m11 m12 m13)
             (Vec4 m20 m21 m22 m23) r3) =
     Mat4 (Vec4 b00 b01 b02 m03) (Vec4 b10 b11 b12 m13) (Vec4 b20 b21 b22 m23) r3"

fun set_col3_head3 :: "vec3 \<Rightarrow> mat4 \<Rightarrow> mat4" where
  "set_col3_head3 (Vec3 c0 c1 c2)
       (Mat4 (Vec4 m00 m01 m02 m03) (Vec4 m10 m11 m12 m13)
             (Vec4 m20 m21 m22 m23) r3) =
     Mat4 (Vec4 m00 m01 m02 c0) (Vec4 m10 m11 m12 c1) (Vec4 m20 m21 m22 c2) r3"

fun row3_setZero :: "mat4 \<Rightarrow> mat4" where
  "row3_setZero (Mat4 r0 r1 r2 r3) = Mat4 r0 r1 r2 (Vec4 0 0 0 0)"

section \<open>The collaborators of Sim3: SO3 and RxSO3\<close>

text \<open>
  The rotation group SO3 and the rotation-scale group RxSO3 are defined in \<^verbatim>\<open>so3.hpp\<close> and
  \<^verbatim>\<open>rxso3.hpp\<close>, outside \<^verbatim>\<open>sim3.hpp\<close>. What Sim3 calls from them is modelled from the
  specification.
\<close>

text \<open>
  Modelled from the spec: \<^verbatim>\<open>SO3Group<Scalar>::hat\<close> (\<^verbatim>\<open>so3.hpp\<close>), "a skew-symmetric operator
  (hat) turning a 3-vector into a 3x3 antisymmetric matrix, used for cross products":
  \<open>SO3_hat w\<close> is the matrix of \<open>v \<mapsto> w \<times> v\<close>.
\<close>

fun SO3_hat :: "vec3 \<Rightarrow> mat3" where
  "SO3_hat (Vec3 a b c) = Mat3 (Vec3 0 (- c) b) (Vec3 c 0 (- a)) (Vec3 (- b) a 0)"

text \<open>
  Modelled from the spec: \<^verbatim>\<open>RxSO3Group<Scalar>::hat\<close> (\<^verbatim>\<open>rxso3.hpp\<close>), "Rotation-Scale's hat of
  the 4-vector \<open>(\<omega>,\<sigma>)\<close> [i.e. \<open>skew(\<omega>) + \<sigma>I\<close>]".
\<close>

fun RxSO3_hat :: "vec4 \<Rightarrow> mat3" where
  "RxSO3_hat (Vec4 a b c s) = SO3_hat (Vec3 a b c) + s *\<^sub>R 1"

text \<open>
  Modelled from the spec: \<^verbatim>\<open>RxSO3Group<Scalar>::vee\<close> (\<^verbatim>\<open>rxso3.hpp\<close>), the inverse of
  \<open>RxSO3_hat\<close> on the matrices \<open>skew(\<omega>) + \<sigma>I\<close>: \<open>\<omega>\<close> is read from the entries \<open>(2,1)\<close>, \<open>(0,2)\<close>
  and \<open>(1,0)\<close> below and above the diagonal, \<open>\<sigma>\<close> from the entry \<open>(0,0)\<close>.
\<close>

fun RxSO3_vee :: "mat3 \<Rightarrow> vec4" where
  "RxSO3_vee (Mat3 (Vec3 m00 m01 m02) (Vec3 m10 m11 m12) (Vec3 m20 m21 m22)) =
     Vec4 m21 m02 m10 m00"

text \<open>
  Modelled from the spec: the representation of a Rotation-Scale element, "a nonzero
  quaternion (norm = scale, direction = orientation)". \<^verbatim>\<open>rxso3.hpp\<close> stores an
  \<^verbatim>\<open>Eigen::Quaternion<Scalar>\<close>, whose constructor takes the coefficients in the order
  \<open>(w, x, y, z)\<close>.
\<close>

datatype quaternion = Quaternion real real real real

text \<open>
  Modelled from the spec: the "composition" of Rotation-Scale elements is the Hamilton
  product of their quaternions (\<^verbatim>\<open>operator*\<close> of \<^verbatim>\<open>Eigen::Quaternion\<close>).
\<close>

fun quat_mul :: "quaternion \<Rightarrow> quaternion \<Rightarrow> quaternion" where
  "quat_mul (Quaternion w1 x1 y1 z1) (Quaternion w2 x2 y2 z2) =
     Quaternion (w1 * w2 - x1 * x2 - y1 * y2 - z1 * z2)
                (w1 * x2 + x1 * w2 + y1 * z2 - z1 * y2)
                (w1 * y2 + y1 * w2 + z1 * x2 - x1 * z2)
                (w1 * z2 + z1 * w2 + x1 * y2 - y1 * x2)"

text \<open>
  Modelled from the spec: "scale = quaternion norm"; \<^verbatim>\<open>squaredNorm()\<close> and \<^verbatim>\<open>norm()\<close> of
  \<^verbatim>\<open>Eigen::Quaternion\<close>.
\<close>

fun squaredNorm :: "quaternion \<Rightarrow> real" where
  "squaredNorm (Quaternion w x y z) = w * w + x * x + y * y + z * z"

definition quat_norm :: "quaternion \<Rightarrow> real" where
  "quat_norm q = sqrt (squaredNorm q)"

text \<open>
  Modelled from the spec: the "inversion" of a Rotation-Scale element is the inverse of its
  quaternion: the conjugate divided by the squared norm (\<^verbatim>\<open>conjugate()\<close> and \<^verbatim>\<open>inverse()\<close>
  of \<^verbatim>\<open>Eigen::Quaternion\<close>; the latter returns the zero quaternion where the squared norm is
  not positive).
\<close>

fun conjugate :: "quaternion \<Rightarrow> quaternion" where
  "conjugate (Quaternion w x y z) = Quaternion w (- x) (- y) (- z)"

fun quat_div_scalar :: "quaternion \<Rightarrow> real \<Rightarrow> quaternion" where
  "quat_div_scalar (Quaternion w x y z) k = Quaternion (w / k) (x / k) (y / k) (z / k)"

definition quat_inverse :: "quaternion \<Rightarrow> quaternion" where
  "quat_inverse q =
     (let n2 = squaredNorm q
      in if 0 < n2 then quat_div_scalar (conjugate q) n2 else Quaternion 0 0 0 0)"

text \<open>
  Modelled from the spec: "orientation = normalized quaternion"; \<^verbatim>\<open>normalized()\<close> of
  \<^verbatim>\<open>Eigen::Quaternion\<close> divides every coefficient by the norm.
\<close>

definition normalized :: "quaternion \<Rightarrow> quaternion" where
  "normalized q = quat_div_scalar q (quat_norm q)"

text \<open>
  Modelled from the spec: the "rotation-matrix extraction"; \<^verbatim>\<open>toRotationMatrix()\<close> of
  \<^verbatim>\<open>Eigen::Quaternion\<close>, which expects a unit quaternion.
\<close>

fun toRotationMatrix :: "quaternion \<Rightarrow> mat3" where
  "toRotationMatrix (Quaternion w x y z) =
     (let tx = 2 * x; ty = 2 * y; tz = 2 * z;
          twx = tx * w; twy = ty * w; twz = tz * w;
          txx = tx * x; txy = ty * x; txz = tz * x;
          tyy = ty * y; tyz = tz * y; tzz = tz * z
      in Mat3 (Vec3 (1 - (tyy + tzz)) (txy - twz) (txz + twy))
              (Vec3 (txy + twz) (1 - (txx + tzz)) (tyz - twx))
              (Vec3 (txz - twy) (tyz + twx) (1 - (txx + tyy))))"

text \<open>
  Modelled from the spec: the class \<^verbatim>\<open>RxSO3Group<Scalar>\<close> (\<^verbatim>\<open>rxso3.hpp\<close>). "Rotation-Scale
  element: 4 stored parameters (a quaternion, never exactly zero)": an element is its
  quaternion.
\<close>

type_synonym RxSO3 = quaternion

text \<open>
  Modelled from the spec: the default constructor of \<^verbatim>\<open>RxSO3Group\<close>, which gives the identity
  rotation (\<^verbatim>\<open>sim3.hpp\<close>, the comment on the default constructor of \<^verbatim>\<open>Sim3Group\<close>: "Initialize
  Eigen::Quaternion to identity rotation and translation to zero").
\<close>

definition RxSO3_default :: RxSO3 where
  "RxSO3_default = Quaternion 1 0 0 0"

text \<open>
  Modelled from the spec: \<^verbatim>\<open>RxSO3Group::operator*\<close> and \<^verbatim>\<open>operator*=\<close>, the "composition" of
  Rotation-Scale elements: the product of the quaternions, under which norms (scales)
  multiply and orientations compose.
\<close>

definition RxSO3_mul :: "RxSO3 \<Rightarrow> RxSO3 \<Rightarrow> RxSO3" where
  "RxSO3_mul a b = quat_mul a b"

text \<open>
  Modelled from the spec: \<^verbatim>\<open>RxSO3Group::inverse\<close>, the "inversion" of a Rotation-Scale
  element: the inverse quaternion.
\<close>

definition RxSO3_inverse :: "RxSO3 \<Rightarrow> RxSO3" where
  "RxSO3_inverse a = quat_inverse a"

text \<open>
  Modelled from the spec: \<^verbatim>\<open>RxSO3Group::scale\<close>, "scale = quaternion norm".
\<close>

definition RxSO3_scale :: "RxSO3 \<Rightarrow> real" where
  "RxSO3_scale a = quat_norm a"

text \<open>
  Modelled from the spec: \<^verbatim>\<open>RxSO3Group::rotationMatrix\<close>, "orientation = normalized
  quaternion".
\<close>

definition RxSO3_rotationMatrix :: "RxSO3 \<Rightarrow> mat3" where
  "RxSO3_rotationMatrix a = toRotationMatrix (normalized a)"

text \<open>
  Modelled from the spec: \<^verbatim>\<open>RxSO3Group::operator*(const Point&)\<close>, the "action on points":
  the point is rotated and scaled (\<^verbatim>\<open>sim3.hpp\<close>: \<open>p' = sR \<cdot> p + t\<close>).
\<close>

definition RxSO3_act :: "RxSO3 \<Rightarrow> vec3 \<Rightarrow> vec3" where
  "RxSO3_act a p = RxSO3_scale a *\<^sub>R mat3_vec (RxSO3_rotationMatrix a) p"

text \<open>
  Modelled from the spec: \<^verbatim>\<open>RxSO3Group<Scalar>::expAndTheta\<close> (\<^verbatim>\<open>rxso3.hpp\<close>). Of the tangent
  \<open>(\<omega>,\<sigma>)\<close> it returns the element of scale \<open>exp \<sigma>\<close> that rotates by the angle \<open>\<theta> = \<parallel>\<omega>\<parallel>\<close>
  about \<open>\<omega>\<close>, together with \<open>\<theta>\<close> ("both the Rotation-Scale element and the rotation angle
  theta = \<parallel>\<omega>\<parallel>", "scale = exp(\<sigma>)"). The factor \<open>sin (\<theta>/2) / \<theta>\<close> of the imaginary part is
  continued by its limit \<open>1/2\<close> at \<open>\<theta> = 0\<close>.
\<close>

fun RxSO3_expAndTheta :: "vec4 \<Rightarrow> RxSO3 \<times> real" where
  "RxSO3_expAndTheta (Vec4 a b c sigma) =
     (let theta = norm3 (Vec3 a b c);
          scale = exp sigma;
          k = (if theta = 0 then 1 / 2 else sin (theta / 2) / theta)
      in (Quaternion (scale * cos (theta / 2)) (scale * (k * a)) (scale * (k * b))
            (scale * (k * c)), theta))"

text \<open>
  Modelled from the spec: \<^verbatim>\<open>RxSO3Group<Scalar>::logAndTheta\<close> (\<^verbatim>\<open>rxso3.hpp\<close>), the
  "logarithm" of the Rotation-Scale group that "additionally report[s] the rotation angle",
  the inverse of \<open>RxSO3_expAndTheta\<close>: \<open>\<sigma>\<close> is the logarithm of the scale, \<open>\<theta>\<close> the rotation
  angle of the orientation \<open>(w, v)\<close> (twice the angle whose tangent is \<open>\<parallel>v\<parallel> / w\<close>, and \<open>\<pi>\<close>
  where \<open>w = 0\<close>), and \<open>\<omega>\<close> the rotation axis \<open>v / \<parallel>v\<parallel>\<close> scaled by \<open>\<theta>\<close>.
\<close>

definition RxSO3_logAndTheta :: "RxSO3 \<Rightarrow> vec4 \<times> real" where
  "RxSO3_logAndTheta q =
     (case normalized q of
        Quaternion w x y z \<Rightarrow>
          (let sigma = ln (quat_norm q);
               n = norm3 (Vec3 x y z);
               theta = (if w = 0 then pi else 2 * arctan (n / w));
               k = (if n = 0 then 2 else theta / n)
           in (Vec4 (k * x) (k * y) (k * z) sigma, theta)))"

section \<open>The Lie algebra of Sim3\<close>

text \<open>\<^verbatim>\<open>Sim3GroupBase::hat\<close>. The local \<^verbatim>\<open>Omega\<close> is declared without an initial value and
  the three writes cover all sixteen coefficients; \<open>hat_from\<close> runs the writes on a given
  initial matrix.\<close>

definition hat_from :: "mat4 \<Rightarrow> vec7 \<Rightarrow> mat4" where
  "hat_from Omega v =
     row3_setZero (set_col3_head3 (head3 v) (set_topLeftCorner33_mat4 (RxSO3_hat (tail4 v)) Omega))"

definition hat :: "vec7 \<Rightarrow> mat4" where
  "hat v = hat_from (Mat4 (Vec4 0 0 0 0) (Vec4 0 0 0 0) (Vec4 0 0 0 0) (Vec4 0 0 0 0)) v"

text \<open>\<^verbatim>\<open>Sim3GroupBase::vee\<close>; the two writes cover all seven coefficients of the result.\<close>

definition vee_from :: "vec7 \<Rightarrow> mat4 \<Rightarrow> vec7" where
  "vee_from upsilon_omega_sigma Omega =
     set_tail4 (RxSO3_vee (topLeftCorner33 Omega))
       (set_head3 (col3_head3 Omega) upsilon_omega_sigma)"

definition vee :: "mat4 \<Rightarrow> vec7" where
  "vee Omega = vee_from 0 Omega"

text \<open>\<^verbatim>\<open>Sim3GroupBase::lieBracket\<close>.\<close>

definition lieBracket_from :: "vec7 \<Rightarrow> vec7 \<Rightarrow> vec7 \<Rightarrow> vec7" where
  "lieBracket_from res a b =
     (let upsilon1 = head3 a;
          upsilon2 = head3 b;
          omega1 = segment3 a;
          omega2 = segment3 b;
          sigma1 = coeff6 a;
          sigma2 = coeff6 b;
          res1 = set_head3 (mat3_vec (SO3_hat omega1) upsilon2 + mat3_vec (SO3_hat upsilon1) omega2
                            + sigma1 *\<^sub>R upsilon2 - sigma2 *\<^sub>R upsilon1) res;
          res2 = set_segment3 (cross omega1 omega2) res1;
          res3 = set_coeff6 0 res2
      in res3)"

definition lieBracket :: "vec7 \<Rightarrow> vec7 \<Rightarrow> vec7" where
  "lieBracket a b = lieBracket_from 0 a b"

text \<open>\<^verbatim>\<open>Sim3GroupBase::d_lieBracketab_by_d_a\<close>.\<close>

definition d_lieBracketab_by_d_a :: "vec7 \<Rightarrow> mat7" where
  "d_lieBracketab_by_d_a b =
     (let upsilon2 = head3 b;
          omega2 = segment3 b;
          sigma2 = coeff6 b;
          res0 = mat7_setZero;
          res1 = set_topLeftCorner33 (- SO3_hat omega2 - sigma2 *\<^sub>R 1) res0;
          res2 = set_block33_0_3 (- SO3_hat upsilon2) res1;
          res3 = set_topRightCorner31 upsilon2 res2;
          res4 = set_block33_3_3 (- SO3_hat omega2) res3
      in res4)"

section \<open>The coefficient kernels\<close>

text \<open>
  \<^verbatim>\<open>SophusConstants<Scalar>::epsilon()\<close> is declared outside \<^verbatim>\<open>sim3.hpp\<close>; the threshold is
  the parameter \<open>epsilon\<close> of the functions that compare against it.

  \<^verbatim>\<open>Sim3GroupBase::calcW\<close>: the coefficients \<open>(A, B, C)\<close> chosen by the nested branches, and
  the matrix assembled from them.
\<close>

definition calcW_coeffs :: "real \<Rightarrow> real \<Rightarrow> real \<Rightarrow> real \<Rightarrow> real \<times> real \<times> real" where
  "calcW_coeffs epsilon theta sigma scale =
     (let one = 1; half = 1 / 2
      in if \<bar>sigma\<bar> < epsilon then
           (let C = one
            in if \<bar>theta\<bar> < epsilon then
                 (let A = half; B = 1 / 6 in (A, B, C))
               else
                 (let theta_sq = theta * theta;
                      A = (one - cos theta) / theta_sq;
                      B = (theta - sin theta) / (theta_sq * theta)
                  in (A, B, C)))
         else
           (let C = (scale - one) / sigma
            in if \<bar>theta\<bar> < epsilon then
                 (let sigma_sq = sigma * sigma;
                      A = ((sigma - one) * scale + one) / sigma_sq;
                      B = ((half * sigma * sigma - sigma + one) * scale) / (sigma_sq * sigma)
                  in (A, B, C))
               else
                 (let theta_sq = theta * theta;
                      a = scale * sin theta;
                      b = scale * cos theta;
                      c = theta_sq + sigma * sigma;
                      A = (a * sigma + (one - b) * theta) / (theta * c);
                      B = (C - ((b - one) * sigma + a * theta) / c) * one / theta_sq
                  in (A, B, C))))"

definition calcW :: "real \<Rightarrow> real \<Rightarrow> real \<Rightarrow> real \<Rightarrow> mat3 \<Rightarrow> mat3" where
  "calcW epsilon theta sigma scale Omega =
     (let I = 1;
          Omega2 = Omega * Omega;
          (A, B, C) = calcW_coeffs epsilon theta sigma scale
      in A *\<^sub>R Omega + B *\<^sub>R Omega2 + C *\<^sub>R I)"

text \<open>\<^verbatim>\<open>Sim3GroupBase::calcWInv\<close>, in the same two parts.\<close>

definition calcWInv_coeffs :: "real \<Rightarrow> real \<Rightarrow> real \<Rightarrow> real \<Rightarrow> real \<times> real \<times> real" where
  "calcWInv_coeffs epsilon theta sigma scale =
     (let half = 1 / 2; one = 1; two = 2;
          scale_sq = scale * scale;
          theta_sq = theta * theta;
          sin_theta = sin theta;
          cos_theta = cos theta
      in if \<bar>sigma * sigma\<bar> < epsilon then
           (let c = one - half * sigma;
                a = - half
            in if \<bar>theta_sq\<bar> < epsilon then
                 (let b = 1 / 12 in (a, b, c))
               else
                 (let b = (theta * sin_theta + two * cos_theta - two) /
                          (two * theta_sq * (cos_theta - one))
                  in (a, b, c)))
         else
           (let scale_cu = scale_sq * scale;
                c = sigma / (scale - one)
            in if \<bar>theta_sq\<bar> < epsilon then
                 (let a = (- sigma * scale + scale - one) / ((scale - one) * (scale - one));
                      b = (scale_sq * sigma - two * scale_sq + scale * sigma + two * scale) /
                          (two * scale_cu - 6 * scale_sq + 6 * scale - two)
                  in (a, b, c))
               else
                 (let s_sin_theta = scale * sin_theta;
                      s_cos_theta = scale * cos_theta;
                      a = (theta * s_cos_theta - theta - sigma * s_sin_theta) /
                          (theta * (scale_sq - two * s_cos_theta + one));
                      b = - scale *
                          (theta * s_sin_theta - theta * sin_theta + sigma * s_cos_theta -
                           scale * sigma + sigma * cos_theta - sigma) /
                          (theta_sq * (scale_cu - two * scale * s_cos_theta - scale_sq +
                                       two * s_cos_theta + scale - one))
                  in (a, b, c))))"

definition calcWInv :: "real \<Rightarrow> real \<Rightarrow> real \<Rightarrow> real \<Rightarrow> mat3 \<Rightarrow> mat3" where
  "calcWInv epsilon theta sigma scale Omega =
     (let I = 1;
          Omega2 = Omega * Omega;
          (a, b, c) = calcWInv_coeffs epsilon theta sigma scale
      in a *\<^sub>R Omega + b *\<^sub>R Omega2 + c *\<^sub>R I)"

section \<open>The group Sim3\<close>

text \<open>The members \<^verbatim>\<open>rxso3_\<close> and \<^verbatim>\<open>translation_\<close> of \<^verbatim>\<open>Sim3Group\<close>.\<close>

record Sim3 =
  rxso3 :: RxSO3
  translation :: vec3

text \<open>The default constructor: \<^verbatim>\<open>rxso3_\<close> default-constructed, \<^verbatim>\<open>translation_\<close> zero.\<close>

definition Sim3_default :: Sim3 where
  "Sim3_default = \<lparr>rxso3 = RxSO3_default, translation = Vec3 0 0 0\<rparr>"

text \<open>The constructor from an RxSO3 element and a translation.\<close>

definition Sim3_of :: "RxSO3 \<Rightarrow> vec3 \<Rightarrow> Sim3" where
  "Sim3_of r t = \<lparr>rxso3 = r, translation = t\<rparr>"

text \<open>The invariant of the data model: the quaternion is never zero.\<close>

definition valid_Sim3 :: "Sim3 \<Rightarrow> bool" where
  "valid_Sim3 g = (rxso3 g \<noteq> Quaternion 0 0 0 0)"

text \<open>\<^verbatim>\<open>Sim3GroupBase::scale\<close>.\<close>

definition scale_Sim3 :: "Sim3 \<Rightarrow> real" where
  "scale_Sim3 g = RxSO3_scale (rxso3 g)"

text \<open>\<^verbatim>\<open>Sim3GroupBase::inverse\<close>.\<close>

definition inverse_Sim3 :: "Sim3 \<Rightarrow> Sim3" where
  "inverse_Sim3 g =
     (let invR = RxSO3_inverse (rxso3 g)
      in Sim3_of invR (RxSO3_act invR (vec3_times_scalar (translation g) (- 1))))"

text \<open>\<^verbatim>\<open>Sim3GroupBase::operator*(const Point&)\<close>.\<close>

definition mul_Point :: "Sim3 \<Rightarrow> vec3 \<Rightarrow> vec3" where
  "mul_Point g p = RxSO3_act (rxso3 g) p + translation g"

text \<open>
  \<^verbatim>\<open>Sim3GroupBase::operator*=\<close>. The receiver is updated in place and \<^verbatim>\<open>other\<close> is a reference
  that may denote the receiver itself (\<^verbatim>\<open>a *= a\<close>), so the two statements run on a store of
  Sim3 objects, each reading its operands from the store as it stands.
\<close>

type_synonym store = "nat \<Rightarrow> Sim3"

definition mul_assign :: "nat \<Rightarrow> nat \<Rightarrow> store \<Rightarrow> store" where
  "mul_assign this other s =
     (let s1 = s(this := (s this)\<lparr>translation :=
                  translation (s this) + RxSO3_act (rxso3 (s this)) (translation (s other))\<rparr>);
          s2 = s1(this := (s1 this)\<lparr>rxso3 := RxSO3_mul (rxso3 (s1 this)) (rxso3 (s1 other))\<rparr>)
      in s2)"

text \<open>\<^verbatim>\<open>Sim3GroupBase::operator*(const Sim3Group&)\<close>: \<^verbatim>\<open>result\<close> is a fresh copy of the
  receiver (here at address 0, \<^verbatim>\<open>other\<close> at address 1), composed in place and returned.\<close>

definition mul :: "Sim3 \<Rightarrow> Sim3 \<Rightarrow> Sim3" where
  "mul this other =
     (let s = (\<lambda>a. if a = 0 then this else other);
          s' = mul_assign 0 1 s
      in s' 0)"

text \<open>\<^verbatim>\<open>Sim3GroupBase::exp\<close>.\<close>

definition exp_Sim3 :: "real \<Rightarrow> vec7 \<Rightarrow> Sim3" where
  "exp_Sim3 epsilon a =
     (let upsilon = head3 a;
          omega = segment3 a;
          sigma = coeff6 a;
          (rxso3', theta) = RxSO3_expAndTheta (tail4 a);
          Omega = SO3_hat omega;
          W = calcW epsilon theta sigma (RxSO3_scale rxso3') Omega
      in Sim3_of rxso3' (mat3_vec W upsilon))"

text \<open>\<^verbatim>\<open>Sim3GroupBase::log\<close>. The local \<^verbatim>\<open>res\<close> is declared without an initial value and the
  three writes cover all seven coefficients; \<open>log_Sim3_from\<close> runs them on a given initial
  vector.\<close>

definition log_Sim3_from :: "vec7 \<Rightarrow> real \<Rightarrow> Sim3 \<Rightarrow> vec7" where
  "log_Sim3_from res epsilon other =
     (let (omega_sigma, theta) = RxSO3_logAndTheta (rxso3 other);
          omega = vec4_head3 omega_sigma;
          sigma = vec4_coeff3 omega_sigma;
          W_inv = calcWInv epsilon theta sigma (scale_Sim3 other) (SO3_hat omega);
          res1 = set_head3 (mat3_vec W_inv (translation other)) res;
          res2 = set_segment3 omega res1;
          res3 = set_coeff6 sigma res2
      in res3)"

definition log_Sim3 :: "real \<Rightarrow> Sim3 \<Rightarrow> vec7" where
  "log_Sim3 epsilon other = log_Sim3_from 0 epsilon other"

section \<open>Generators\<close>

text \<open>
  Modelled from the spec: the macro \<^verbatim>\<open>SOPHUS_ENSURE\<close> (declared outside \<^verbatim>\<open>sim3.hpp\<close>), a
  "fail-fast contract check": where the condition is false the program stops with an
  "immediate fatal assertion" carrying the description, otherwise execution continues.
\<close>

datatype error = EnsureFailed string | IndexOutOfRange

definition SOPHUS_ENSURE :: "bool \<Rightarrow> string \<Rightarrow> error + unit" where
  "SOPHUS_ENSURE expr description = (if expr then Inr () else Inl (EnsureFailed description))"

text \<open>\<^verbatim>\<open>e[i] = c\<close> on a 7-vector. Eigen checks the index with its own debug assertion and
  otherwise writes outside the vector; both are the outcome \<open>IndexOutOfRange\<close>.\<close>

fun set_coeff :: "int \<Rightarrow> real \<Rightarrow> vec7 \<Rightarrow> error + vec7" where
  "set_coeff i c (Vec7 a0 a1 a2 a3 a4 a5 a6) =
     (if i = 0 then Inr (Vec7 c a1 a2 a3 a4 a5 a6)
      else if i = 1 then Inr (Vec7 a0 c a2 a3 a4 a5 a6)
      else if i = 2 then Inr (Vec7 a0 a1 c a3 a4 a5 a6)
      else if i = 3 then Inr (Vec7 a0 a1 a2 c a4 a5 a6)
      else if i = 4 then Inr (Vec7 a0 a1 a2 a3 c a5 a6)
      else if i = 5 then Inr (Vec7 a0 a1 a2 a3 a4 c a6)
      else if i = 6 then Inr (Vec7 a0 a1 a2 a3 a4 a5 c)
      else Inl IndexOutOfRange)"

text \<open>\<^verbatim>\<open>Sim3GroupBase::generator\<close>.\<close>

definition generator :: "int \<Rightarrow> error + mat4" where
  "generator i =
     (case SOPHUS_ENSURE (i \<ge> 0 \<or> i \<le> 6) ''i should be in range [0,6].'' of
        Inl err \<Rightarrow> Inl err
      | Inr _ \<Rightarrow>
          (case set_coeff i 1 0 of
             Inl err \<Rightarrow> Inl err
           | Inr e \<Rightarrow> Inr (hat e)))"

section \<open>Properties of the Lie algebra operations\<close>

lemma hat_from_any: "hat_from Omega v = hat v"
proof -
  obtain r0 r1 r2 r3 where Omega: "Omega = Mat4 r0 r1 r2 r3"
    by (cases Omega)
  show ?thesis
    by (cases v; cases r0; cases r1; cases r2)
       (simp add: Omega hat_from_def hat_def one_mat3_def)
qed


subsection \<open>Vectors and matrices\<close>

lemma scaleR_one_vec3: "1 *\<^sub>R (v::vec3) = v"
  by (cases v) simp

lemma scaleR_scaleR_vec3: "a *\<^sub>R (b *\<^sub>R (v::vec3)) = (a * b) *\<^sub>R v"
  by (cases v) simp

lemma scaleR_one_mat3: "1 *\<^sub>R (M::mat3) = M"
  by (cases M) (simp add: scaleR_one_vec3)

lemma vec3_times_minus_one: "vec3_times_scalar v (- 1) = - v"
  by (cases v) simp

lemma vec3_add_uminus: "v + - v = Vec3 0 0 0" and vec3_uminus_add: "- v + v = Vec3 0 0 0"
  by (cases v; simp)+

lemma vec3_add_zero: "v + Vec3 0 0 0 = v" and vec3_zero_add: "Vec3 0 0 0 + v = v"
  by (cases v; simp)+

lemma scaleR_uminus_vec3: "k *\<^sub>R (- v) = - (k *\<^sub>R (v::vec3))"
  by (cases v) simp

lemma mat3_vec_scaleR: "mat3_vec M (k *\<^sub>R v) = k *\<^sub>R mat3_vec M v"
proof -
  obtain r0 r1 r2 where M: "M = Mat3 r0 r1 r2" by (cases M)
  show ?thesis
    by (cases v; cases r0; cases r1; cases r2) (simp add: M algebra_simps)
qed

lemma mat3_vec_uminus: "mat3_vec M (- v) = - mat3_vec M v"
proof -
  obtain r0 r1 r2 where M: "M = Mat3 r0 r1 r2" by (cases M)
  show ?thesis
    by (cases v; cases r0; cases r1; cases r2) (simp add: M algebra_simps)
qed

lemma mat3_vec_one: "mat3_vec 1 v = v"
  by (cases v) (simp add: one_mat3_def)

subsection \<open>Quaternions and the Rotation-Scale group\<close>

lemma rot_conj_rot_coeffs:
  fixes a b c d :: real
  assumes u: "a * a + b * b + c * c + d * d = 1"
  shows "mat3_vec (toRotationMatrix (Quaternion a (- b) (- c) (- d)))
           (mat3_vec (toRotationMatrix (Quaternion a b c d)) (Vec3 p q r)) = Vec3 p q r"
  using u apply (simp add: Let_def)
  apply (intro conjI)
  apply algebra
  apply algebra
  apply algebra
  done

lemma squaredNorm_nonneg: "0 \<le> squaredNorm q"
  by (cases q) simp

lemma squaredNorm_pos_iff: "0 < squaredNorm q \<longleftrightarrow> q \<noteq> Quaternion 0 0 0 0"
proof (cases q)
  case (Quaternion w x y z)
  have "w * w + x * x + y * y + z * z = 0 \<longleftrightarrow> w = 0 \<and> x = 0 \<and> y = 0 \<and> z = 0"
    by (simp add: add_nonneg_eq_0_iff)
  moreover have "0 \<le> w * w + x * x + y * y + z * z" by simp
  ultimately show ?thesis using Quaternion by (auto simp: less_le)
qed

lemma quat_norm_pos: "q \<noteq> Quaternion 0 0 0 0 \<Longrightarrow> 0 < quat_norm q"
  by (simp add: quat_norm_def squaredNorm_pos_iff)

lemma quat_norm_sq: "quat_norm q * quat_norm q = squaredNorm q"
  by (simp add: quat_norm_def squaredNorm_nonneg)

lemma squaredNorm_div: "squaredNorm (quat_div_scalar q k) = squaredNorm q / (k * k)"
  by (cases q) (simp add: add_divide_distrib)

lemma squaredNorm_conjugate: "squaredNorm (conjugate q) = squaredNorm q"
  by (cases q) simp

lemma quat_inverse_nonzero:
  assumes "q \<noteq> Quaternion 0 0 0 0"
  shows "quat_inverse q \<noteq> Quaternion 0 0 0 0"
proof -
  have n: "0 < squaredNorm q" using assms by (simp add: squaredNorm_pos_iff)
  have "squaredNorm (quat_inverse q) = 1 / squaredNorm q"
    using n by (simp add: quat_inverse_def squaredNorm_div squaredNorm_conjugate)
  with n have "0 < squaredNorm (quat_inverse q)" by simp
  then show ?thesis by (simp add: squaredNorm_pos_iff)
qed

lemma quat_mul_conj_div:
  assumes "D \<noteq> 0" and "squaredNorm q = D"
  shows "quat_mul q (quat_div_scalar (conjugate q) D) = Quaternion 1 0 0 0"
    and "quat_mul (quat_div_scalar (conjugate q) D) q = Quaternion 1 0 0 0"
proof -
  obtain w x y z where q: "q = Quaternion w x y z" by (cases q)
  have D: "w * w + x * x + y * y + z * z = D" using assms q by simp
  have "(w * w + x * x + y * y + z * z) / D = 1"
    using assms(1) D by simp
  then have one: "w * w / D + x * x / D + y * y / D + z * z / D = 1"
    by (simp add: add_divide_distrib)
  show "quat_mul q (quat_div_scalar (conjugate q) D) = Quaternion 1 0 0 0"
    using one by (simp add: q algebra_simps)
  show "quat_mul (quat_div_scalar (conjugate q) D) q = Quaternion 1 0 0 0"
    using one by (simp add: q algebra_simps)
qed

lemma quat_mul_inverse:
  assumes "q \<noteq> Quaternion 0 0 0 0"
  shows "quat_mul q (quat_inverse q) = Quaternion 1 0 0 0"
    and "quat_mul (quat_inverse q) q = Quaternion 1 0 0 0"
proof -
  have n: "0 < squaredNorm q" using assms by (simp add: squaredNorm_pos_iff)
  then have nz: "squaredNorm q \<noteq> 0" by simp
  show "quat_mul q (quat_inverse q) = Quaternion 1 0 0 0"
    using n quat_mul_conj_div(1)[OF nz refl] by (simp add: quat_inverse_def)
  show "quat_mul (quat_inverse q) q = Quaternion 1 0 0 0"
    using n quat_mul_conj_div(2)[OF nz refl] by (simp add: quat_inverse_def)
qed

lemma normalized_unit:
  assumes "q \<noteq> Quaternion 0 0 0 0"
  shows "squaredNorm (normalized q) = 1"
  using assms quat_norm_pos[OF assms]
  by (simp add: normalized_def squaredNorm_div quat_norm_sq squaredNorm_pos_iff[symmetric])

lemma quat_norm_inverse:
  assumes "q \<noteq> Quaternion 0 0 0 0"
  shows "quat_norm (quat_inverse q) = 1 / quat_norm q"
proof -
  have n: "0 < squaredNorm q" using assms by (simp add: squaredNorm_pos_iff)
  have "squaredNorm (quat_inverse q) = 1 / squaredNorm q"
    using n by (simp add: quat_inverse_def squaredNorm_div squaredNorm_conjugate)
  then show ?thesis by (simp add: quat_norm_def real_sqrt_divide)
qed

lemma conjugate_div: "conjugate (quat_div_scalar q k) = quat_div_scalar (conjugate q) k"
  by (cases q) simp

lemma quat_div_div: "quat_div_scalar (quat_div_scalar p a) b = quat_div_scalar p (a * b)"
  by (cases p) simp

lemma normalized_inverse:
  assumes "q \<noteq> Quaternion 0 0 0 0"
  shows "normalized (quat_inverse q) = conjugate (normalized q)"
proof -
  have n: "0 < squaredNorm q" using assms by (simp add: squaredNorm_pos_iff)
  have s: "0 < quat_norm q" by (rule quat_norm_pos[OF assms])
  have inv: "quat_inverse q = quat_div_scalar (conjugate q) (squaredNorm q)"
    using n by (simp add: quat_inverse_def)
  have k: "squaredNorm q * (1 / quat_norm q) = quat_norm q"
    using s by (simp add: quat_norm_sq[symmetric])
  have "normalized (quat_inverse q) = quat_div_scalar (quat_inverse q) (1 / quat_norm q)"
    by (simp only: normalized_def quat_norm_inverse[OF assms])
  also have "\<dots> = quat_div_scalar (conjugate q) (quat_norm q)"
    by (simp only: inv quat_div_div k)
  also have "\<dots> = conjugate (normalized q)"
    by (simp only: normalized_def conjugate_div)
  finally show ?thesis .
qed

lemma rot_conj_rot_unit:
  assumes "squaredNorm u = 1"
  shows "mat3_vec (toRotationMatrix (conjugate u)) (mat3_vec (toRotationMatrix u) v) = v"
    and "mat3_vec (toRotationMatrix u) (mat3_vec (toRotationMatrix (conjugate u)) v) = v"
proof -
  obtain a b c d where u: "u = Quaternion a b c d" by (cases u)
  obtain p q r where v: "v = Vec3 p q r" by (cases v)
  have 1: "a * a + b * b + c * c + d * d = 1" using assms u by simp
  then have 2: "a * a + (- b) * (- b) + (- c) * (- c) + (- d) * (- d) = 1" by simp
  show "mat3_vec (toRotationMatrix (conjugate u)) (mat3_vec (toRotationMatrix u) v) = v"
    unfolding u v conjugate.simps by (rule rot_conj_rot_coeffs[OF 1])
  show "mat3_vec (toRotationMatrix u) (mat3_vec (toRotationMatrix (conjugate u)) v) = v"
    unfolding u v conjugate.simps using rot_conj_rot_coeffs[OF 2, of p q r] by simp
qed

lemma RxSO3_act_inverse:
  assumes "q \<noteq> Quaternion 0 0 0 0"
  shows "RxSO3_act (RxSO3_inverse q) (RxSO3_act q v) = v"
    and "RxSO3_act q (RxSO3_act (RxSO3_inverse q) v) = v"
proof -
  have s: "0 < quat_norm q" by (rule quat_norm_pos[OF assms])
  have u: "squaredNorm (normalized q) = 1" by (rule normalized_unit[OF assms])
  show "RxSO3_act (RxSO3_inverse q) (RxSO3_act q v) = v"
    using s by (simp add: RxSO3_act_def RxSO3_inverse_def RxSO3_scale_def RxSO3_rotationMatrix_def
        normalized_inverse[OF assms] quat_norm_inverse[OF assms] mat3_vec_scaleR
        rot_conj_rot_unit[OF u] scaleR_scaleR_vec3 scaleR_one_vec3)
  show "RxSO3_act q (RxSO3_act (RxSO3_inverse q) v) = v"
    using s by (simp add: RxSO3_act_def RxSO3_inverse_def RxSO3_scale_def RxSO3_rotationMatrix_def
        normalized_inverse[OF assms] quat_norm_inverse[OF assms] mat3_vec_scaleR
        rot_conj_rot_unit[OF u] scaleR_scaleR_vec3 scaleR_one_vec3)
qed


lemma RxSO3_act_uminus: "RxSO3_act q (- v) = - RxSO3_act q v"
  by (simp add: RxSO3_act_def mat3_vec_uminus scaleR_uminus_vec3)

lemma quat_mul_one: "quat_mul (Quaternion 1 0 0 0) q = q" and quat_one_mul: "quat_mul q (Quaternion 1 0 0 0) = q"
  by (cases q; simp)+

lemma quat_norm_one: "quat_norm (Quaternion 1 0 0 0) = 1"
  by (simp add: quat_norm_def)

lemma RxSO3_rotationMatrix_default: "RxSO3_rotationMatrix RxSO3_default = 1"
  by (simp add: RxSO3_rotationMatrix_def RxSO3_default_def normalized_def quat_norm_one one_mat3_def)

lemma RxSO3_act_default: "RxSO3_act RxSO3_default p = p"
  using RxSO3_rotationMatrix_default
  by (simp add: RxSO3_act_def RxSO3_scale_def mat3_vec_one scaleR_one_vec3)
     (simp add: RxSO3_default_def quat_norm_one scaleR_one_vec3)

lemma RxSO3_act_zero: "RxSO3_act q (Vec3 0 0 0) = Vec3 0 0 0"
proof -
  obtain r0 r1 r2 where M: "RxSO3_rotationMatrix q = Mat3 r0 r1 r2"
    by (cases "RxSO3_rotationMatrix q")
  show ?thesis
    by (cases r0; cases r1; cases r2) (simp add: RxSO3_act_def M)
qed

lemma squaredNorm_mul: "squaredNorm (quat_mul a b) = squaredNorm a * squaredNorm b"
  by (cases a; cases b) (simp add: algebra_simps)

lemma quat_norm_mul: "quat_norm (quat_mul a b) = quat_norm a * quat_norm b"
  by (simp add: quat_norm_def squaredNorm_mul real_sqrt_mult)

lemma quat_mul_div: "quat_mul (quat_div_scalar a k) (quat_div_scalar b l) = quat_div_scalar (quat_mul a b) (k * l)"
  by (cases a; cases b) (simp add: add_divide_distrib diff_divide_distrib)

lemma normalized_mul: "normalized (quat_mul a b) = quat_mul (normalized a) (normalized b)"
  by (simp add: normalized_def quat_norm_mul quat_mul_div)

lemma rot_mul_coeffs:
  fixes a b c d e f g h :: real
  assumes "a * a + b * b + c * c + d * d = 1" and "e * e + f * f + g * g + h * h = 1"
  shows "mat3_vec (toRotationMatrix (quat_mul (Quaternion a b c d) (Quaternion e f g h))) (Vec3 p q r) =
         mat3_vec (toRotationMatrix (Quaternion a b c d))
           (mat3_vec (toRotationMatrix (Quaternion e f g h)) (Vec3 p q r))"
  using assms apply (simp add: Let_def)
  apply (intro conjI)
    apply algebra
   apply algebra
  apply algebra
  done

lemma RxSO3_act_mul:
  assumes "a \<noteq> Quaternion 0 0 0 0" and "b \<noteq> Quaternion 0 0 0 0"
  shows "RxSO3_act (RxSO3_mul a b) p = RxSO3_act a (RxSO3_act b p)"
proof -
  obtain a0 a1 a2 a3 where na: "normalized a = Quaternion a0 a1 a2 a3" by (cases "normalized a")
  obtain b0 b1 b2 b3 where nb: "normalized b = Quaternion b0 b1 b2 b3" by (cases "normalized b")
  obtain x y z where p: "p = Vec3 x y z" by (cases p)
  have ua: "a0 * a0 + a1 * a1 + a2 * a2 + a3 * a3 = 1"
    using normalized_unit[OF assms(1)] by (simp add: na)
  have ub: "b0 * b0 + b1 * b1 + b2 * b2 + b3 * b3 = 1"
    using normalized_unit[OF assms(2)] by (simp add: nb)
  show ?thesis
    unfolding RxSO3_act_def RxSO3_mul_def RxSO3_scale_def RxSO3_rotationMatrix_def
      normalized_mul quat_norm_mul na nb p rot_mul_coeffs[OF ua ub]
    by (simp only: mat3_vec_scaleR scaleR_scaleR_vec3)
qed

lemma mat3_vec_add: "mat3_vec M (u + v) = mat3_vec M u + mat3_vec M v"
proof -
  obtain r0 r1 r2 where M: "M = Mat3 r0 r1 r2" by (cases M)
  show ?thesis
    by (cases u; cases v; cases r0; cases r1; cases r2) (simp add: M algebra_simps)
qed

lemma scaleR_add_vec3: "k *\<^sub>R (u + v) = k *\<^sub>R u + k *\<^sub>R (v::vec3)"
  by (cases u; cases v) (simp add: algebra_simps)

lemma vec3_add_assoc: "(u + v) + w = u + (v + (w::vec3))"
  by (cases u; cases v; cases w) simp

lemma vec3_add_commute: "u + v = v + (u::vec3)"
  by (cases u; cases v) simp

lemma RxSO3_act_add: "RxSO3_act q (u + v) = RxSO3_act q u + RxSO3_act q v"
  by (simp add: RxSO3_act_def mat3_vec_add scaleR_add_vec3)

subsection \<open>Composition\<close>

lemma mul_eq:
  "mul A B = \<lparr>rxso3 = RxSO3_mul (rxso3 A) (rxso3 B),
              translation = translation A + RxSO3_act (rxso3 A) (translation B)\<rparr>"
  by (simp add: mul_def mul_assign_def Let_def)

lemma mul_assign_this:
  "mul_assign a b s a = \<lparr>rxso3 = RxSO3_mul (rxso3 (s a)) (rxso3 (s b)),
       translation = translation (s a) + RxSO3_act (rxso3 (s a)) (translation (s b))\<rparr>"
  by (simp add: mul_assign_def Let_def)

lemma mul_assign_frame: "c \<noteq> a \<Longrightarrow> mul_assign a b s c = s c"
  by (simp add: mul_assign_def Let_def)

text \<open>The action is compatible with the composition: \<open>(g1 \<circ> g2) \<cdot> p = g1 \<cdot> (g2 \<cdot> p)\<close>.\<close>

lemma mul_Point_mul:
  assumes "valid_Sim3 g1" and "valid_Sim3 g2"
  shows "mul_Point (mul g1 g2) p = mul_Point g1 (mul_Point g2 p)"
  using assms
  by (simp add: mul_Point_def mul_eq valid_Sim3_def RxSO3_act_mul RxSO3_act_add vec3_add_assoc
      vec3_add_commute[of "translation g1"])


subsection \<open>The coefficient kernels\<close>

lemma abs_square_less_iff_sqrt: "\<bar>sigma * sigma\<bar> < epsilon \<longleftrightarrow> \<bar>sigma\<bar> < sqrt epsilon"
  for sigma :: real
proof -
  have "\<bar>sigma * sigma\<bar> = \<bar>sigma\<bar>\<^sup>2" by (simp add: power2_eq_square abs_mult)
  moreover have "\<bar>sigma\<bar>\<^sup>2 < epsilon \<longleftrightarrow> \<bar>sigma\<bar> < sqrt epsilon"
    using real_sqrt_less_iff[of "\<bar>sigma\<bar>\<^sup>2" epsilon] by simp
  ultimately show ?thesis by simp
qed

lemma calcW_C: "snd (snd (calcW_coeffs epsilon theta sigma scale)) =
   (if \<bar>sigma\<bar> < epsilon then 1 else (scale - 1) / sigma)"
  by (simp add: calcW_coeffs_def Let_def)

lemma calcWInv_c: "snd (snd (calcWInv_coeffs epsilon theta sigma scale)) =
   (if \<bar>sigma * sigma\<bar> < epsilon then 1 - sigma / 2 else sigma / (scale - 1))"
  by (simp add: calcWInv_coeffs_def Let_def)

lemma calcWInv_a_small: "\<bar>sigma * sigma\<bar> < epsilon \<Longrightarrow> fst (calcWInv_coeffs epsilon theta sigma scale) = - 1 / 2"
  by (simp add: calcWInv_coeffs_def Let_def)

subsection \<open>The exponential and the logarithm of the Rotation-Scale group\<close>

text \<open>The model of \<open>RxSO3_logAndTheta\<close> inverts the model of \<open>RxSO3_expAndTheta\<close> on rotation
  angles below \<open>\<pi>\<close>.\<close>

lemma norm3_nonneg: "0 \<le> norm3 v"
  by (cases v) (simp add: norm3_def)

lemma norm3_sq: "norm3 (Vec3 a b c) * norm3 (Vec3 a b c) = a * a + b * b + c * c"
  by (simp add: norm3_def)

lemma norm3_scale: "norm3 (Vec3 (k * a) (k * b) (k * c)) = \<bar>k\<bar> * norm3 (Vec3 a b c)"
proof -
  have "(k * a) * (k * a) + (k * b) * (k * b) + (k * c) * (k * c) = k\<^sup>2 * (a * a + b * b + c * c)"
    by (simp add: power2_eq_square algebra_simps)
  then show ?thesis
    by (simp add: norm3_def real_sqrt_mult)
qed

lemma norm3_zero_iff: "norm3 (Vec3 a b c) = 0 \<longleftrightarrow> a = 0 \<and> b = 0 \<and> c = 0"
proof -
  have "a * a + b * b + c * c = 0 \<longleftrightarrow> a = 0 \<and> b = 0 \<and> c = 0"
    by (simp add: add_nonneg_eq_0_iff)
  then show ?thesis by (simp add: norm3_def)
qed

lemma expAndTheta_parts:
  fixes a b c sigma :: real
  assumes theta_def: "theta = norm3 (Vec3 a b c)"
    and k_def: "k = (if theta = 0 then 1 / 2 else sin (theta / 2) / theta)"
  shows "quat_norm (fst (RxSO3_expAndTheta (Vec4 a b c sigma))) = exp sigma"
    and "normalized (fst (RxSO3_expAndTheta (Vec4 a b c sigma))) =
           Quaternion (cos (theta / 2)) (k * a) (k * b) (k * c)"
    and "snd (RxSO3_expAndTheta (Vec4 a b c sigma)) = theta"
    and "norm3 (Vec3 (k * a) (k * b) (k * c)) = \<bar>sin (theta / 2)\<bar>"
proof -
  have kt: "k * theta = sin (theta / 2)"
    by (simp add: k_def)
  have n: "norm3 (Vec3 (k * a) (k * b) (k * c)) = \<bar>sin (theta / 2)\<bar>"
    using norm3_nonneg[of "Vec3 a b c"]
    by (simp add: norm3_scale theta_def[symmetric] kt[symmetric] abs_mult)
  have "(k * a) * (k * a) + (k * b) * (k * b) + (k * c) * (k * c) = sin (theta / 2) * sin (theta / 2)"
    using n norm3_sq[of "k * a" "k * b" "k * c"] by simp
  moreover have "cos (theta / 2) * cos (theta / 2) + sin (theta / 2) * sin (theta / 2) = 1"
    using sin_cos_squared_add2[of "theta / 2"] by (simp add: power2_eq_square)
  ultimately have u: "cos (theta / 2) * cos (theta / 2) + (k * a) * (k * a) + (k * b) * (k * b) + (k * c) * (k * c) = 1"
    by linarith
  have q: "fst (RxSO3_expAndTheta (Vec4 a b c sigma)) =
      Quaternion (exp sigma * cos (theta / 2)) (exp sigma * (k * a)) (exp sigma * (k * b)) (exp sigma * (k * c))"
    by (simp add: Let_def theta_def k_def)
  have "squaredNorm (fst (RxSO3_expAndTheta (Vec4 a b c sigma))) =
      (exp sigma)\<^sup>2 * (cos (theta / 2) * cos (theta / 2) + (k * a) * (k * a) + (k * b) * (k * b) + (k * c) * (k * c))"
    unfolding q by (simp add: power2_eq_square algebra_simps)
  then have sn: "squaredNorm (fst (RxSO3_expAndTheta (Vec4 a b c sigma))) = (exp sigma)\<^sup>2"
    by (simp only: u mult_1_right)
  show qn: "quat_norm (fst (RxSO3_expAndTheta (Vec4 a b c sigma))) = exp sigma"
    unfolding quat_norm_def sn by simp
  show "normalized (fst (RxSO3_expAndTheta (Vec4 a b c sigma))) =
           Quaternion (cos (theta / 2)) (k * a) (k * b) (k * c)"
    unfolding normalized_def qn unfolding q by simp
  show "snd (RxSO3_expAndTheta (Vec4 a b c sigma)) = theta"
    by (simp add: Let_def theta_def)
  show "norm3 (Vec3 (k * a) (k * b) (k * c)) = \<bar>sin (theta / 2)\<bar>" by (rule n)
qed

lemma logAndTheta_expAndTheta:
  assumes "norm3 (Vec3 a b c) < pi"
  shows "RxSO3_logAndTheta (fst (RxSO3_expAndTheta (Vec4 a b c sigma))) =
           (Vec4 a b c sigma, norm3 (Vec3 a b c))"
proof -
  define theta where "theta = norm3 (Vec3 a b c)"
  define k where "k = (if theta = 0 then 1 / 2 else sin (theta / 2) / theta)"
  note parts = expAndTheta_parts[OF theta_def k_def]
  have t0: "0 \<le> theta" by (simp add: theta_def norm3_nonneg)
  have tpi: "theta < pi" using assms by (simp add: theta_def)
  have cpos: "0 < cos (theta / 2)"
    using t0 tpi by (intro cos_gt_zero_pi) simp_all
  have snn: "0 \<le> sin (theta / 2)"
    using t0 tpi by (intro sin_ge_zero) simp_all
  have at: "2 * arctan (sin (theta / 2) / cos (theta / 2)) = theta"
    using arctan_tan[of "theta / 2"] t0 tpi by (simp add: tan_def)
  show ?thesis
  proof (cases "theta = 0")
    case True
    then have z: "a = 0" "b = 0" "c = 0"
      using norm3_zero_iff[of a b c] by (simp_all add: theta_def)
    show ?thesis
      unfolding RxSO3_logAndTheta_def parts(1) parts(2) theta_def[symmetric]
      by (simp add: True z norm3_def)
  next
    case False
    then have tp: "0 < theta" using t0 by simp
    have sp: "0 < sin (theta / 2)"
      using tp tpi by (intro sin_gt_zero) simp_all
    have n: "norm3 (Vec3 (k * a) (k * b) (k * c)) = sin (theta / 2)"
      using parts(4) sp by simp
    have kk: "theta * (k * x) / sin (theta / 2) = x" for x
      using sp tp by (simp add: k_def False)
    show ?thesis
      unfolding RxSO3_logAndTheta_def parts(1) parts(2) theta_def[symmetric]
      using cpos sp by (simp add: n at kk Let_def)
  qed
qed

subsection \<open>The kernels at a rotation about the third axis\<close>

lemma calcW_coeffs_small_theta:
  assumes "\<not> \<bar>sigma\<bar> < epsilon" and "\<bar>theta\<bar> < epsilon"
  shows "calcW_coeffs epsilon theta sigma scale =
     (((sigma - 1) * scale + 1) / (sigma * sigma),
      ((1 / 2 * sigma * sigma - sigma + 1) * scale) / (sigma * sigma * sigma),
      (scale - 1) / sigma)"
  using assms by (simp add: calcW_coeffs_def Let_def)

lemma calcWInv_coeffs_small:
  assumes "\<bar>sigma * sigma\<bar> < epsilon" and "\<bar>theta * theta\<bar> < epsilon"
  shows "calcWInv_coeffs epsilon theta sigma scale = (- (1 / 2), 1 / 12, 1 - 1 / 2 * sigma)"
  using assms by (simp add: calcWInv_coeffs_def Let_def)

lemma calcW_z_axis:
  assumes "calcW_coeffs epsilon theta sigma scale = (A, B, C)"
  shows "mat3_vec (calcW epsilon theta sigma scale (SO3_hat (Vec3 0 0 c))) (Vec3 1 0 0) =
         Vec3 (C - B * (c * c)) (A * c) 0"
  by (simp add: calcW_def assms one_mat3_def)

lemma calcWInv_z_axis:
  assumes "calcWInv_coeffs epsilon theta sigma scale = (a, b, d)"
  shows "mat3_vec (calcWInv epsilon theta sigma scale (SO3_hat (Vec3 0 0 c))) (Vec3 t0 t1 0) =
         Vec3 (d * t0 - b * (c * c) * t0 - a * c * t1) (a * c * t0 + d * t1 - b * (c * c) * t1) 0"
  by (simp add: calcWInv_def assms one_mat3_def algebra_simps)

lemma exp_small_bounds:
  "1 + 1 / 10 ^ 9 \<le> exp (1 / 10 ^ 9 :: real)" "exp (1 / 10 ^ 9 :: real) \<le> 1 + 1 / 10 ^ 9 + 1 / 10 ^ 18"
proof -
  show "1 + 1 / 10 ^ 9 \<le> exp (1 / 10 ^ 9 :: real)"
    using exp_ge_add_one_self[of "1 / 10 ^ 9 :: real"] by simp
  have "exp (1 / 10 ^ 9 :: real) \<le> 1 + 1 / 10 ^ 9 + (1 / 10 ^ 9)\<^sup>2"
    by (rule exp_bound) simp_all
  then show "exp (1 / 10 ^ 9 :: real) \<le> 1 + 1 / 10 ^ 9 + 1 / 10 ^ 18"
    by (simp add: power2_eq_square)
qed

lemma fail_bounds:
  fixes s :: real
  assumes "1 + 1 / 10 ^ 9 \<le> s" and "s \<le> 1 + 1 / 10 ^ 9 + 1 / 10 ^ 18"
  defines "sigma \<equiv> 1 / 10 ^ 9" and "c \<equiv> 1 / 10 ^ 12"
  defines "A \<equiv> ((sigma - 1) * s + 1) / (sigma * sigma)"
  defines "B \<equiv> ((1 / 2 * sigma * sigma - sigma + 1) * s) / (sigma * sigma * sigma)"
  defines "C \<equiv> (s - 1) / sigma"
  shows "C - B * (c * c) < - 800"
    and "(1 - 1 / 2 * sigma) * (C - B * (c * c)) - 1 / 12 * (c * c) * (C - B * (c * c))
           - (- (1 / 2)) * c * (A * c) < - 700"
    and "10 ^ 26 < B"
proof -
  have A: "A = (- 999999999 * s + 1000000000) * 1000000000"
    by (simp add: A_def sigma_def)
  have B: "B * (c * c) = (1000 - 1 / 10 ^ 6 + 1 / (2 * 10 ^ 15)) * s"
    by (simp add: B_def sigma_def c_def)
  have C: "C = (s - 1) * 10 ^ 9"
    by (simp add: C_def sigma_def)
  have t0: "C - B * (c * c) < - 800" unfolding B C using assms(1,2) by simp
  show "C - B * (c * c) < - 800" by (rule t0)
  have A1: "A \<le> 1" unfolding A using assms(1) by simp
  have A0: "0 \<le> A" unfolding A using assms(2) by simp
  have "(1 - 1 / 2 * sigma) * (C - B * (c * c)) - 1 / 12 * (c * c) * (C - B * (c * c))
           - (- (1 / 2)) * c * (A * c) = (1 - 1 / 2 * sigma - 1 / 12 * (c * c)) * (C - B * (c * c)) + 1 / 2 * (c * c) * A"
    by (simp add: algebra_simps)
  also have "\<dots> \<le> (1 - 1 / 2 * sigma - 1 / 12 * (c * c)) * (- 800) + 1 / 2 * (c * c) * 1"
  proof (intro add_mono mult_left_mono)
    show "C - B * (c * c) \<le> - 800" using t0 by simp
    show "A \<le> 1" by (rule A1)
  qed (simp_all add: sigma_def c_def)
  also have "\<dots> < - 700" by (simp add: sigma_def c_def)
  finally show "(1 - 1 / 2 * sigma) * (C - B * (c * c)) - 1 / 12 * (c * c) * (C - B * (c * c))
           - (- (1 / 2)) * c * (A * c) < - 700" .
  have "B = (1 - 1 / 10 ^ 9 + 1 / (2 * 10 ^ 18)) * s * 10 ^ 27"
    by (simp add: B_def sigma_def)
  then show "10 ^ 26 < B" using assms(1) by simp
qed

lemma norm3_z_axis: "0 \<le> c \<Longrightarrow> norm3 (Vec3 0 0 c) = c"
  by (simp add: norm3_def)

lemma exp_log_at_failing_input:
  fixes s A B C :: real
  defines "s \<equiv> exp (1 / 10 ^ 9)"
  defines "A \<equiv> ((1 / 10 ^ 9 - 1) * s + 1) / (1 / 10 ^ 9 * (1 / 10 ^ 9))"
  defines "B \<equiv> ((1 / 2 * (1 / 10 ^ 9) * (1 / 10 ^ 9) - 1 / 10 ^ 9 + 1) * s) /
                 (1 / 10 ^ 9 * (1 / 10 ^ 9) * (1 / 10 ^ 9))"
  defines "C \<equiv> (s - 1) / (1 / 10 ^ 9)"
  defines "t0 \<equiv> C - B * (1 / 10 ^ 12 * (1 / 10 ^ 12))"
  shows "translation (exp_Sim3 (1 / 10 ^ 10) (Vec7 1 0 0 0 0 (1 / 10 ^ 12) (1 / 10 ^ 9))) =
           Vec3 t0 (A * (1 / 10 ^ 12)) 0"
    and "log_Sim3 (1 / 10 ^ 10) (exp_Sim3 (1 / 10 ^ 10) (Vec7 1 0 0 0 0 (1 / 10 ^ 12) (1 / 10 ^ 9))) =
           Vec7 ((1 - 1 / 2 * (1 / 10 ^ 9)) * t0 - 1 / 12 * (1 / 10 ^ 12 * (1 / 10 ^ 12)) * t0
                   - (- (1 / 2)) * (1 / 10 ^ 12) * (A * (1 / 10 ^ 12)))
                (- (1 / 2) * (1 / 10 ^ 12) * t0 + (1 - 1 / 2 * (1 / 10 ^ 9)) * (A * (1 / 10 ^ 12))
                   - 1 / 12 * (1 / 10 ^ 12 * (1 / 10 ^ 12)) * (A * (1 / 10 ^ 12)))
                0 0 0 (1 / 10 ^ 12) (1 / 10 ^ 9)"
proof -
  define q where "q = fst (RxSO3_expAndTheta (Vec4 0 0 (1 / 10 ^ 12) (1 / 10 ^ 9)))"
  have n3: "norm3 (Vec3 0 0 (1 / 10 ^ 12)) = 1 / 10 ^ 12"
    by (rule norm3_z_axis) simp
  have qn: "quat_norm q = s"
    unfolding q_def s_def by (rule expAndTheta_parts(1)[OF refl refl])
  have th: "snd (RxSO3_expAndTheta (Vec4 0 0 (1 / 10 ^ 12) (1 / 10 ^ 9))) = 1 / 10 ^ 12"
    using expAndTheta_parts(3)[OF refl refl, of 0 0 "1 / 10 ^ 12" "1 / 10 ^ 9"] n3 by simp
  have pair: "RxSO3_expAndTheta (Vec4 0 0 (1 / 10 ^ 12) (1 / 10 ^ 9)) = (q, 1 / 10 ^ 12)"
    using th by (simp add: q_def prod_eq_iff del: RxSO3_expAndTheta.simps)
  have cw: "calcW_coeffs (1 / 10 ^ 10) (1 / 10 ^ 12) (1 / 10 ^ 9) s = (A, B, C)"
    unfolding A_def B_def C_def by (rule calcW_coeffs_small_theta) simp_all
  have E: "exp_Sim3 (1 / 10 ^ 10) (Vec7 1 0 0 0 0 (1 / 10 ^ 12) (1 / 10 ^ 9)) =
      \<lparr>rxso3 = q, translation = Vec3 t0 (A * (1 / 10 ^ 12)) 0\<rparr>"
    unfolding exp_Sim3_def t0_def Let_def tail4.simps head3.simps segment3.simps coeff6.simps
      pair prod.case RxSO3_scale_def qn calcW_z_axis[OF cw] Sim3_of_def
    by (rule refl)
  show "translation (exp_Sim3 (1 / 10 ^ 10) (Vec7 1 0 0 0 0 (1 / 10 ^ 12) (1 / 10 ^ 9))) =
           Vec3 t0 (A * (1 / 10 ^ 12)) 0"
    unfolding E by (simp only: Sim3.simps)
  have "(1 / 10 ^ 12 :: real) < 2" by simp
  then have "norm3 (Vec3 0 0 (1 / 10 ^ 12)) < pi"
    unfolding n3 using pi_ge_two by linarith
  then have L: "RxSO3_logAndTheta q = (Vec4 0 0 (1 / 10 ^ 12) (1 / 10 ^ 9), 1 / 10 ^ 12)"
    unfolding q_def using logAndTheta_expAndTheta[of 0 0 "1 / 10 ^ 12" "1 / 10 ^ 9"] n3 by simp
  have ci: "calcWInv_coeffs (1 / 10 ^ 10) (1 / 10 ^ 12) (1 / 10 ^ 9) s =
      (- (1 / 2), 1 / 12, 1 - 1 / 2 * (1 / 10 ^ 9))"
    by (rule calcWInv_coeffs_small) simp_all
  show "log_Sim3 (1 / 10 ^ 10) (exp_Sim3 (1 / 10 ^ 10) (Vec7 1 0 0 0 0 (1 / 10 ^ 12) (1 / 10 ^ 9))) =
           Vec7 ((1 - 1 / 2 * (1 / 10 ^ 9)) * t0 - 1 / 12 * (1 / 10 ^ 12 * (1 / 10 ^ 12)) * t0
                   - (- (1 / 2)) * (1 / 10 ^ 12) * (A * (1 / 10 ^ 12)))
                (- (1 / 2) * (1 / 10 ^ 12) * t0 + (1 - 1 / 2 * (1 / 10 ^ 9)) * (A * (1 / 10 ^ 12))
                   - 1 / 12 * (1 / 10 ^ 12 * (1 / 10 ^ 12)) * (A * (1 / 10 ^ 12)))
                0 0 0 (1 / 10 ^ 12) (1 / 10 ^ 9)"
    unfolding E log_Sim3_def log_Sim3_from_def Let_def Sim3.simps L prod.case
      vec4_head3.simps vec4_coeff3.simps scale_Sim3_def RxSO3_scale_def qn
      calcWInv_z_axis[OF ci] zero_vec7_def set_head3.simps set_segment3.simps set_coeff6.simps
    by (rule refl)
qed

text \<open>At this input the coefficient \<open>B\<close> of \<open>calcW\<close> exceeds \<open>10\<^sup>2\<^sup>6\<close>; in the branch where \<open>\<sigma>\<close> is
  small as well it is \<open>1/6\<close>.\<close>

lemma calcW_B_at_failing_input:
  "10 ^ 26 < fst (snd (calcW_coeffs (1 / 10 ^ 10) (1 / 10 ^ 12) (1 / 10 ^ 9) (exp (1 / 10 ^ 9))))"
proof -
  have "calcW_coeffs (1 / 10 ^ 10) (1 / 10 ^ 12) (1 / 10 ^ 9) (exp (1 / 10 ^ 9)) =
     (((1 / 10 ^ 9 - 1) * exp (1 / 10 ^ 9) + 1) / (1 / 10 ^ 9 * (1 / 10 ^ 9)),
      ((1 / 2 * (1 / 10 ^ 9) * (1 / 10 ^ 9) - 1 / 10 ^ 9 + 1) * exp (1 / 10 ^ 9)) /
        (1 / 10 ^ 9 * (1 / 10 ^ 9) * (1 / 10 ^ 9)),
      (exp (1 / 10 ^ 9) - 1) / (1 / 10 ^ 9))"
    by (rule calcW_coeffs_small_theta) simp_all
  then show ?thesis
    using fail_bounds(3)[OF exp_small_bounds] by (simp only: fst_conv snd_conv)
qed

subsection \<open>Bounds on the logarithm of 2\<close>

lemma exp_ge_partial_sum:
  fixes x :: real
  assumes "0 \<le> x"
  shows "(\<Sum>m<n. x ^ m / fact m) \<le> exp x"
proof -
  obtain t where "exp x = (\<Sum>m<n. x ^ m / fact m) + (exp t / fact n) * x ^ n"
    using Maclaurin_exp_le[of x n] by blast
  moreover have "0 \<le> (exp t / fact n) * x ^ n"
    using assms by simp
  ultimately show ?thesis by linarith
qed

lemma exp_le_partial_sum:
  fixes x :: real
  assumes "0 \<le> x" and "x \<le> 1"
  shows "exp x \<le> (\<Sum>m<n. x ^ m / fact m) + 3 * x ^ n / fact n"
proof -
  obtain t where t: "\<bar>t\<bar> \<le> \<bar>x\<bar>"
    and e: "exp x = (\<Sum>m<n. x ^ m / fact m) + (exp t / fact n) * x ^ n"
    using Maclaurin_exp_le[of x n] by blast
  have "t \<le> 1" using t assms by linarith
  then have "exp t \<le> exp 1" by simp
  also have "\<dots> \<le> 3" by (rule exp_le)
  finally have "exp t \<le> 3" .
  then have "exp t * (x ^ n / fact n) \<le> 3 * (x ^ n / fact n)"
    using assms by (intro mult_right_mono) simp_all
  with e show ?thesis by (simp add: field_simps)
qed

lemma ln2_lower: "6931 / 10000 < ln (2::real)"
proof -
  have "exp (6931 / 10000 :: real) \<le> (\<Sum>m<8. (6931 / 10000) ^ m / fact m) + 3 * (6931 / 10000) ^ 8 / fact 8"
    by (rule exp_le_partial_sum) simp_all
  also have "\<dots> < 2"
    by (simp add: lessThan_nat_numeral lessThan_Suc fact_numeral power_divide)
  finally have "exp (6931 / 10000 :: real) < exp (ln 2)" by simp
  then show ?thesis by (simp only: exp_less_cancel_iff)
qed

lemma ln2_upper: "ln (2::real) < 69319 / 100000"
proof -
  have "2 < (\<Sum>m<8. (69319 / 100000 :: real) ^ m / fact m)"
    by (simp add: lessThan_nat_numeral lessThan_Suc fact_numeral power_divide)
  also have "\<dots> \<le> exp (69319 / 100000)"
    by (rule exp_ge_partial_sum) simp
  finally have "exp (ln 2) < exp (69319 / 100000 :: real)" by simp
  then show ?thesis by (simp only: exp_less_cancel_iff)
qed

lemma inv_ln2_approx: "\<bar>(2 - 1) / ln (2::real) - 14427 / 10000\<bar> < 1 / 10000"
proof -
  define y :: real where "y = 1 / ln 2"
  have p: "0 < ln (2::real)" by simp
  have a: "14426 / 10000 < y"
    using ln2_upper p by (simp add: y_def field_simps)
  have b: "y < 14428 / 10000"
    using ln2_lower p by (simp add: y_def field_simps)
  have "\<bar>y - 14427 / 10000\<bar> < 1 / 10000"
    using a b by linarith
  moreover have "(2 - 1) / ln (2::real) = y"
    by (simp add: y_def)
  ultimately show ?thesis by (simp only:)
qed

section \<open>The claims\<close>

subsection \<open>Generators\<close>

text \<open>
  C1. The claim: for every index \<open>i\<close> outside \<open>[0,6]\<close> the contract check of
  \<open>generator\<close> fires. The condition handed to \<^verbatim>\<open>SOPHUS_ENSURE\<close> is \<open>i \<ge> 0 \<or> i \<le> 6\<close>, which
  every integer satisfies: at \<open>i = 7\<close> and at \<open>i = -1\<close> the check passes and the write
  \<^verbatim>\<open>e[i]\<close> falls outside the 7-vector, and for no index at all does \<open>generator\<close> end in the
  failure of the contract check.
\<close>

theorem generator_range_check_never_fires:
  "generator 7 = Inl IndexOutOfRange \<and> generator (- 1) = Inl IndexOutOfRange \<and>
   (\<forall>i d. generator i \<noteq> Inl (EnsureFailed d))"
  by (auto simp: generator_def SOPHUS_ENSURE_def zero_vec7_def split: sum.splits)

subsection \<open>Composition\<close>

text \<open>
  C2. For all Sim3 elements \<open>A\<close> and \<open>B\<close>, \<open>mul A B\<close> has the rotation-scale part
  \<open>RxSO3_mul (rxso3 A) (rxso3 B)\<close> and the translation
  \<open>translation A + RxSO3_act (rxso3 A) (translation B)\<close>; \<open>mul_assign\<close> leaves the same
  element in the receiver, also when \<open>other\<close> is the receiver itself (\<open>a = b\<close>); and
  \<open>mul A B\<close> is what composing in place on a copy of \<open>A\<close> gives.
\<close>

theorem composition_formula:
  "rxso3 (mul A B) = RxSO3_mul (rxso3 A) (rxso3 B) \<and>
   translation (mul A B) = translation A + RxSO3_act (rxso3 A) (translation B) \<and>
   rxso3 (mul_assign a b s a) = RxSO3_mul (rxso3 (s a)) (rxso3 (s b)) \<and>
   translation (mul_assign a b s a) =
     translation (s a) + RxSO3_act (rxso3 (s a)) (translation (s b)) \<and>
   mul_assign a b s a = mul (s a) (s b) \<and>
   mul A B = mul_assign 0 1 (\<lambda>k. if k = 0 then A else B) 0"
  by (simp add: mul_eq mul_assign_this)

subsection \<open>The exponential and the logarithm map\<close>

text \<open>
  C3. The claim: \<open>log (exp a)\<close> is \<open>a\<close> up to a tolerance. With the threshold
  \<open>epsilon = 1 / 10 ^ 10\<close> and the tangent vector \<open>a\<close> of \<open>\<upsilon> = (1,0,0)\<close>,
  \<open>\<omega> = (0,0,1 / 10 ^ 12)\<close> and \<open>\<sigma> = 1 / 10 ^ 9\<close>, \<open>exp_Sim3\<close> returns a translation whose first
  coefficient is below \<open>-800\<close>, and \<open>log_Sim3\<close> of that element returns the \<open>\<omega>\<close> and the \<open>\<sigma>\<close>
  of \<open>a\<close> but a first coefficient below \<open>-700\<close>, where \<open>a\<close> has 1. In the branch of \<open>calcW\<close>
  for small \<open>\<theta>\<close> and \<open>\<sigma>\<close> not small, the numerator of \<open>B\<close> is
  \<open>(\<sigma>\<^sup>2/2 - \<sigma> + 1) scale\<close>, without the \<open>- 1\<close> that the limit of the general branch has, so
  \<open>B\<close> grows like \<open>1/\<sigma>\<^sup>3\<close> and \<open>B \<Omega>\<^sup>2\<close> is of the order of \<open>\<theta>\<^sup>2/\<sigma>\<^sup>3\<close>.
\<close>

theorem log_exp_round_trip_fails:
  "vec3_coeff0 (translation (exp_Sim3 (1 / 10 ^ 10) (Vec7 1 0 0 0 0 (1 / 10 ^ 12) (1 / 10 ^ 9)))) < - 800 \<and>
   coeff0 (log_Sim3 (1 / 10 ^ 10) (exp_Sim3 (1 / 10 ^ 10) (Vec7 1 0 0 0 0 (1 / 10 ^ 12) (1 / 10 ^ 9)))) < - 700 \<and>
   segment3 (log_Sim3 (1 / 10 ^ 10) (exp_Sim3 (1 / 10 ^ 10) (Vec7 1 0 0 0 0 (1 / 10 ^ 12) (1 / 10 ^ 9)))) =
     Vec3 0 0 (1 / 10 ^ 12) \<and>
   coeff6 (log_Sim3 (1 / 10 ^ 10) (exp_Sim3 (1 / 10 ^ 10) (Vec7 1 0 0 0 0 (1 / 10 ^ 12) (1 / 10 ^ 9)))) =
     1 / 10 ^ 9 \<and>
   coeff0 (Vec7 1 0 0 0 0 (1 / 10 ^ 12) (1 / 10 ^ 9)) = 1"
  unfolding exp_log_at_failing_input
  using fail_bounds(1,2)[OF exp_small_bounds]
  by simp

text \<open>
  C5. For the tangent vector with \<open>\<upsilon> = (1,0,0)\<close>, \<open>\<omega> = (0,0,0)\<close> and \<open>\<sigma> = ln 2\<close>, and a threshold
  \<open>epsilon\<close> in \<open>(0, 1/2]\<close>, \<open>exp_Sim3\<close> returns the element of scale 2 with the identity
  rotation and the translation \<open>((2 - 1) / ln 2, 0, 0)\<close>, whose first coefficient is within
  \<open>0.0001\<close> of \<open>1.4427\<close>.
\<close>

theorem exp_scenario_B:
  assumes "0 < epsilon" and "epsilon \<le> 1 / 2"
  shows "scale_Sim3 (exp_Sim3 epsilon (Vec7 1 0 0 0 0 0 (ln 2))) = 2 \<and>
         RxSO3_rotationMatrix (rxso3 (exp_Sim3 epsilon (Vec7 1 0 0 0 0 0 (ln 2)))) = 1 \<and>
         translation (exp_Sim3 epsilon (Vec7 1 0 0 0 0 0 (ln 2))) = Vec3 ((2 - 1) / ln 2) 0 0 \<and>
         \<bar>(2 - 1) / ln (2::real) - 14427 / 10000\<bar> < 1 / 10000"
proof -
  have l: "epsilon < ln 2" using assms(2) ln2_lower by linarith
  have q: "RxSO3_expAndTheta (Vec4 0 0 0 (ln 2)) = (Quaternion 2 0 0 0, 0)"
    by (simp add: norm3_def)
  have n: "quat_norm (Quaternion 2 0 0 0) = 2"
    by (simp add: quat_norm_def)
  have "\<exists>A B. calcW_coeffs epsilon 0 (ln 2) 2 = (A, B, (2 - 1) / ln 2)"
    using assms(1) l by (simp add: calcW_coeffs_def Let_def)
  then obtain A B where c: "calcW_coeffs epsilon 0 (ln 2) 2 = (A, B, (2 - 1) / ln 2)"
    by blast
  have w: "calcW epsilon 0 (ln 2) 2 (Mat3 (Vec3 0 0 0) (Vec3 0 0 0) (Vec3 0 0 0)) =
      ((2 - 1) / ln 2) *\<^sub>R 1"
    unfolding calcW_def c by (simp add: one_mat3_def)
  have e: "exp_Sim3 epsilon (Vec7 1 0 0 0 0 0 (ln 2)) =
      \<lparr>rxso3 = Quaternion 2 0 0 0, translation = Vec3 ((2 - 1) / ln 2) 0 0\<rparr>"
    unfolding exp_Sim3_def by (simp add: q n RxSO3_scale_def w Sim3_of_def one_mat3_def del: RxSO3_expAndTheta.simps)
  show ?thesis
    unfolding e using inv_ln2_approx
    by (simp add: scale_Sim3_def RxSO3_scale_def n RxSO3_rotationMatrix_def normalized_def one_mat3_def)
qed

theorem exp_scenario_B_witness:
  "(0::real) < 1 / 10 ^ 10 \<and> (1::real) / 10 ^ 10 \<le> 1 / 2 \<and>
   scale_Sim3 (exp_Sim3 (1 / 10 ^ 10) (Vec7 1 0 0 0 0 0 (ln 2))) = 2 \<and>
   RxSO3_rotationMatrix (rxso3 (exp_Sim3 (1 / 10 ^ 10) (Vec7 1 0 0 0 0 0 (ln 2)))) = 1 \<and>
   translation (exp_Sim3 (1 / 10 ^ 10) (Vec7 1 0 0 0 0 0 (ln 2))) = Vec3 ((2 - 1) / ln 2) 0 0"
proof -
  have a: "(0::real) < 1 / 10 ^ 10" and b: "(1::real) / 10 ^ 10 \<le> 1 / 2"
    by simp_all
  show ?thesis
    using a b exp_scenario_B[OF a b] by simp
qed

subsection \<open>Branch selection in the coefficient kernels\<close>

text \<open>
  C4. The branch on small \<open>\<sigma>\<close> is taken by \<open>calcW\<close> exactly when \<open>\<bar>\<sigma>\<bar> < epsilon\<close> and by
  \<open>calcWInv\<close> exactly when \<open>\<bar>\<sigma> * \<sigma>\<bar> < epsilon\<close>, which is \<open>\<bar>\<sigma>\<bar> < sqrt epsilon\<close>. The branch taken
  is read off the result: in the small-\<open>\<sigma>\<close> branch the third coefficient does not depend
  on the scale (\<open>C = 1\<close>, respectively \<open>c = 1 - \<sigma>/2\<close>, and \<open>a = -1/2\<close> for \<open>calcWInv\<close>), in the
  other branch it is \<open>(scale - 1) / \<sigma>\<close>, respectively \<open>\<sigma> / (scale - 1)\<close>.
\<close>

theorem small_sigma_thresholds:
  assumes "0 < epsilon"
  shows "((\<forall>scale. snd (snd (calcW_coeffs epsilon theta sigma scale)) = 1) \<longleftrightarrow> \<bar>sigma\<bar> < epsilon) \<and>
         ((\<forall>scale. snd (snd (calcWInv_coeffs epsilon theta sigma scale)) = 1 - sigma / 2)
            \<longleftrightarrow> \<bar>sigma * sigma\<bar> < epsilon) \<and>
         (\<bar>sigma * sigma\<bar> < epsilon \<longleftrightarrow> \<bar>sigma\<bar> < sqrt epsilon) \<and>
         (\<not> \<bar>sigma\<bar> < epsilon \<longrightarrow>
            snd (snd (calcW_coeffs epsilon theta sigma scale)) = (scale - 1) / sigma) \<and>
         (\<not> \<bar>sigma\<bar> < sqrt epsilon \<longrightarrow>
            snd (snd (calcWInv_coeffs epsilon theta sigma scale)) = sigma / (scale - 1)) \<and>
         (\<bar>sigma\<bar> < sqrt epsilon \<longrightarrow> fst (calcWInv_coeffs epsilon theta sigma scale) = - 1 / 2)"
proof -
  have 1: "(\<forall>scale. snd (snd (calcW_coeffs epsilon theta sigma scale)) = 1) \<longleftrightarrow> \<bar>sigma\<bar> < epsilon"
  proof
    assume a: "\<forall>scale. snd (snd (calcW_coeffs epsilon theta sigma scale)) = 1"
    show "\<bar>sigma\<bar> < epsilon"
    proof (rule ccontr)
      assume "\<not> \<bar>sigma\<bar> < epsilon"
      then have "snd (snd (calcW_coeffs epsilon theta sigma 1)) = 0" by (simp add: calcW_C)
      with a show False by simp
    qed
  next
    assume "\<bar>sigma\<bar> < epsilon"
    then show "\<forall>scale. snd (snd (calcW_coeffs epsilon theta sigma scale)) = 1"
      by (simp add: calcW_C)
  qed
  have 2: "(\<forall>scale. snd (snd (calcWInv_coeffs epsilon theta sigma scale)) = 1 - sigma / 2)
            \<longleftrightarrow> \<bar>sigma * sigma\<bar> < epsilon"
  proof
    assume a: "\<forall>scale. snd (snd (calcWInv_coeffs epsilon theta sigma scale)) = 1 - sigma / 2"
    show "\<bar>sigma * sigma\<bar> < epsilon"
    proof (rule ccontr)
      assume n: "\<not> \<bar>sigma * sigma\<bar> < epsilon"
      have "snd (snd (calcWInv_coeffs epsilon theta sigma 2)) = sigma"
        and "snd (snd (calcWInv_coeffs epsilon theta sigma 3)) = sigma / 2"
        using n by (simp_all add: calcWInv_c)
      with a have "sigma = 1 - sigma / 2" and "sigma / 2 = 1 - sigma / 2" by metis+
      then show False by simp
    qed
  next
    assume "\<bar>sigma * sigma\<bar> < epsilon"
    then show "\<forall>scale. snd (snd (calcWInv_coeffs epsilon theta sigma scale)) = 1 - sigma / 2"
      by (simp add: calcWInv_c)
  qed
  show ?thesis
    using 1 2 abs_square_less_iff_sqrt[of sigma epsilon]
    by (simp add: calcW_C calcWInv_c calcWInv_a_small)
qed

text \<open>At \<open>epsilon = 1 / 10 ^ 10\<close> and \<open>\<sigma> = 1 / 10 ^ 6\<close> the two kernels disagree on the branch:
  \<open>calcW\<close> divides by \<open>\<sigma>\<close>, \<open>calcWInv\<close> uses its small-\<open>\<sigma>\<close> coefficients.\<close>

theorem small_sigma_thresholds_witness:
  "(0::real) < 1 / 10 ^ 10 \<and>
   \<not> \<bar>1 / 10 ^ 6 :: real\<bar> < 1 / 10 ^ 10 \<and>
   \<bar>1 / 10 ^ 6 :: real\<bar> < sqrt (1 / 10 ^ 10) \<and>
   snd (snd (calcW_coeffs (1 / 10 ^ 10) 1 (1 / 10 ^ 6) 2)) = 10 ^ 6 \<and>
   fst (calcWInv_coeffs (1 / 10 ^ 10) 1 (1 / 10 ^ 6) 2) = - 1 / 2 \<and>
   \<not> \<bar>1 :: real\<bar> < sqrt (1 / 10 ^ 10) \<and>
   snd (snd (calcWInv_coeffs (1 / 10 ^ 10) 1 1 3)) = 1 / 2"
proof -
  have e: "(0::real) < 1 / 10 ^ 10" by simp
  have s: "sqrt (1 / 10 ^ 10 :: real) = 1 / 10 ^ 5"
    by (rule real_sqrt_unique) (simp_all add: power_divide)
  show ?thesis
    using small_sigma_thresholds[OF e, of 1 "1 / 10 ^ 6" 2]
      small_sigma_thresholds[OF e, of 1 1 3]
    by (simp add: s)
qed

text \<open>
  C9. Where both \<open>\<bar>\<sigma>\<bar>\<close> and \<open>\<bar>\<theta>\<bar>\<close> are below \<open>epsilon\<close>, \<open>calcW\<close> uses \<open>A = 1/2\<close>, \<open>B = 1/6\<close> and
  \<open>C = 1\<close> and returns \<open>(1/2) \<Omega> + (1/6) \<Omega>\<^sup>2 + I\<close>.
\<close>

theorem calcW_doubly_degenerate:
  assumes "\<bar>sigma\<bar> < epsilon" and "\<bar>theta\<bar> < epsilon"
  shows "calcW_coeffs epsilon theta sigma scale = (1 / 2, 1 / 6, 1) \<and>
         calcW epsilon theta sigma scale Omega =
           (1 / 2) *\<^sub>R Omega + (1 / 6) *\<^sub>R (Omega * Omega) + 1"
  using assms by (simp add: calcW_def calcW_coeffs_def scaleR_one_mat3)

theorem calcW_doubly_degenerate_witness:
  "\<bar>1 / 10 ^ 11 :: real\<bar> < 1 / 10 ^ 10 \<and>
   calcW (1 / 10 ^ 10) (1 / 10 ^ 11) (1 / 10 ^ 11) (exp (1 / 10 ^ 11))
       (SO3_hat (Vec3 0 0 (1 / 10 ^ 11))) =
     (1 / 2) *\<^sub>R SO3_hat (Vec3 0 0 (1 / 10 ^ 11))
       + (1 / 6) *\<^sub>R (SO3_hat (Vec3 0 0 (1 / 10 ^ 11)) * SO3_hat (Vec3 0 0 (1 / 10 ^ 11))) + 1"
proof -
  have h: "\<bar>1 / 10 ^ 11 :: real\<bar> < 1 / 10 ^ 10" by simp
  show ?thesis
    using h calcW_doubly_degenerate[OF h h, of "exp (1 / 10 ^ 11)" "SO3_hat (Vec3 0 0 (1 / 10 ^ 11))"]
    by simp
qed

subsection \<open>Inverse and identity\<close>

text \<open>
  C6. For every Sim3 element \<open>g\<close> (its quaternion is not zero), \<open>g\<close> composed with
  \<open>inverse_Sim3 g\<close> on either side is the identity element; \<open>inverse_Sim3 g\<close> is
  \<open>(invRS, invRS \<cdot> (- translation g))\<close> with \<open>invRS\<close> the inverse of the rotation-scale part;
  the scale of \<open>g\<close> is positive and the inverse is again a Sim3 element.
\<close>

theorem inverse_is_group_inverse:
  assumes "valid_Sim3 g"
  shows "mul g (inverse_Sim3 g) = Sim3_default \<and>
         mul (inverse_Sim3 g) g = Sim3_default \<and>
         rxso3 (inverse_Sim3 g) = RxSO3_inverse (rxso3 g) \<and>
         translation (inverse_Sim3 g) = RxSO3_act (RxSO3_inverse (rxso3 g)) (- translation g) \<and>
         0 < scale_Sim3 g \<and> valid_Sim3 (inverse_Sim3 g)"
proof -
  have nz: "rxso3 g \<noteq> Quaternion 0 0 0 0"
    using assms by (simp add: valid_Sim3_def)
  have inv: "inverse_Sim3 g =
      \<lparr>rxso3 = RxSO3_inverse (rxso3 g),
       translation = RxSO3_act (RxSO3_inverse (rxso3 g)) (- translation g)\<rparr>"
    by (simp add: inverse_Sim3_def Sim3_of_def vec3_times_minus_one Let_def)
  have right: "mul g (inverse_Sim3 g) = Sim3_default"
    using quat_mul_inverse(1)[OF nz] RxSO3_act_inverse(2)[OF nz]
    by (simp add: mul_eq inv Sim3_default_def RxSO3_default_def RxSO3_mul_def RxSO3_inverse_def
        vec3_add_uminus)
  have left: "mul (inverse_Sim3 g) g = Sim3_default"
    using quat_mul_inverse(2)[OF nz]
    by (simp add: mul_eq inv Sim3_default_def RxSO3_default_def RxSO3_mul_def
        RxSO3_act_uminus vec3_uminus_add) (simp add: RxSO3_inverse_def)
  have pos: "0 < scale_Sim3 g"
    using quat_norm_pos[OF nz] by (simp add: scale_Sim3_def RxSO3_scale_def)
  have val: "valid_Sim3 (inverse_Sim3 g)"
    using quat_inverse_nonzero[OF nz] by (simp add: valid_Sim3_def inv RxSO3_inverse_def)
  from right left pos val show ?thesis by (simp add: inv)
qed

theorem inverse_is_group_inverse_witness:
  "valid_Sim3 \<lparr>rxso3 = Quaternion 1 1 1 1, translation = Vec3 1 2 3\<rparr> \<and>
   mul \<lparr>rxso3 = Quaternion 1 1 1 1, translation = Vec3 1 2 3\<rparr>
       (inverse_Sim3 \<lparr>rxso3 = Quaternion 1 1 1 1, translation = Vec3 1 2 3\<rparr>) = Sim3_default \<and>
   mul (inverse_Sim3 \<lparr>rxso3 = Quaternion 1 1 1 1, translation = Vec3 1 2 3\<rparr>)
       \<lparr>rxso3 = Quaternion 1 1 1 1, translation = Vec3 1 2 3\<rparr> = Sim3_default"
proof -
  have v: "valid_Sim3 \<lparr>rxso3 = Quaternion 1 1 1 1, translation = Vec3 1 2 3\<rparr>"
    by (simp add: valid_Sim3_def)
  show ?thesis
    using v inverse_is_group_inverse[OF v] by simp
qed

text \<open>
  C10. The default-constructed element has zero translation, scale 1 and the identity
  rotation; it maps every point to itself, and composing it with a Sim3 element \<open>g\<close> on
  either side gives \<open>g\<close>.
\<close>

theorem default_is_identity:
  assumes "valid_Sim3 g"
  shows "translation Sim3_default = Vec3 0 0 0 \<and>
         scale_Sim3 Sim3_default = 1 \<and>
         RxSO3_rotationMatrix (rxso3 Sim3_default) = 1 \<and>
         mul_Point Sim3_default p = p \<and>
         mul Sim3_default g = g \<and>
         mul g Sim3_default = g"
  by (simp add: Sim3_default_def scale_Sim3_def mul_Point_def mul_eq RxSO3_rotationMatrix_default
      RxSO3_act_default vec3_add_zero vec3_zero_add RxSO3_act_zero RxSO3_mul_def)
     (simp add: RxSO3_default_def RxSO3_scale_def quat_norm_one quat_mul_one quat_one_mul)

theorem default_is_identity_witness:
  "valid_Sim3 \<lparr>rxso3 = Quaternion 0 3 0 4, translation = Vec3 1 2 3\<rparr> \<and>
   mul_Point Sim3_default (Vec3 5 6 7) = Vec3 5 6 7 \<and>
   mul Sim3_default \<lparr>rxso3 = Quaternion 0 3 0 4, translation = Vec3 1 2 3\<rparr> =
     \<lparr>rxso3 = Quaternion 0 3 0 4, translation = Vec3 1 2 3\<rparr> \<and>
   mul \<lparr>rxso3 = Quaternion 0 3 0 4, translation = Vec3 1 2 3\<rparr> Sim3_default =
     \<lparr>rxso3 = Quaternion 0 3 0 4, translation = Vec3 1 2 3\<rparr>"
proof -
  have v: "valid_Sim3 \<lparr>rxso3 = Quaternion 0 3 0 4, translation = Vec3 1 2 3\<rparr>"
    by (simp add: valid_Sim3_def)
  show ?thesis
    using v default_is_identity[OF v, of "Vec3 5 6 7"] by simp
qed

subsection \<open>The Lie algebra\<close>

text \<open>
  C7. \<open>vee (hat a) = a\<close> for every tangent vector \<open>a\<close>, and \<open>hat (vee \<Omega>) = \<Omega>\<close> for every 4x4
  matrix \<open>\<Omega>\<close> whose upper-left 3x3 block is \<open>skew(\<omega>) + \<sigma>I\<close> and whose last row is zero.
\<close>

theorem hat_vee_inverse:
  "vee (hat a) = a \<and>
   (topLeftCorner33 Omega = SO3_hat omega + sigma *\<^sub>R 1 \<and> row3 Omega = Vec4 0 0 0 0
      \<longrightarrow> hat (vee Omega) = Omega)"
proof -
  have 1: "vee (hat a) = a"
    by (cases a) (simp add: vee_def vee_from_def hat_def hat_from_def one_mat3_def zero_vec7_def)
  have 2: "hat (vee Omega) = Omega"
    if "topLeftCorner33 Omega = SO3_hat omega + sigma *\<^sub>R 1" "row3 Omega = Vec4 0 0 0 0"
  proof -
    obtain r0 r1 r2 r3 where Omega: "Omega = Mat4 r0 r1 r2 r3" by (cases Omega)
    show ?thesis using that
      by (cases r0; cases r1; cases r2; cases omega)
         (simp add: Omega vee_def vee_from_def hat_def hat_from_def one_mat3_def zero_vec7_def)
  qed
  from 1 2 show ?thesis by blast
qed

theorem hat_vee_inverse_witness:
  "topLeftCorner33 (Mat4 (Vec4 4 (- 3) 2 5) (Vec4 3 4 (- 1) 6) (Vec4 (- 2) 1 4 7) (Vec4 0 0 0 0)) =
     SO3_hat (Vec3 1 2 3) + 4 *\<^sub>R 1 \<and>
   row3 (Mat4 (Vec4 4 (- 3) 2 5) (Vec4 3 4 (- 1) 6) (Vec4 (- 2) 1 4 7) (Vec4 0 0 0 0)) =
     Vec4 0 0 0 0 \<and>
   hat (vee (Mat4 (Vec4 4 (- 3) 2 5) (Vec4 3 4 (- 1) 6) (Vec4 (- 2) 1 4 7) (Vec4 0 0 0 0))) =
     Mat4 (Vec4 4 (- 3) 2 5) (Vec4 3 4 (- 1) 6) (Vec4 (- 2) 1 4 7) (Vec4 0 0 0 0)"
  using hat_vee_inverse[of "Vec7 5 6 7 1 2 3 4"
      "Mat4 (Vec4 4 (- 3) 2 5) (Vec4 3 4 (- 1) 6) (Vec4 (- 2) 1 4 7) (Vec4 0 0 0 0)"
      "Vec3 1 2 3" 4]
  by (simp add: one_mat3_def)

text \<open>
  C8. \<open>d_lieBracketab_by_d_a b\<close> is the Jacobian of \<open>a \<mapsto> lieBracket a b\<close>: the bracket is
  linear in \<open>a\<close>, the matrix applied to \<open>a\<close> is \<open>lieBracket a b\<close>, and the increment of the
  bracket from \<open>a\<close> to \<open>a + h\<close> is the matrix applied to \<open>h\<close>. The translational part of the
  bracket is \<open>skew(\<omega>\<^sub>a) \<upsilon>\<^sub>b + skew(\<upsilon>\<^sub>a) \<omega>\<^sub>b + \<sigma>\<^sub>a \<upsilon>\<^sub>b - \<sigma>\<^sub>b \<upsilon>\<^sub>a\<close>, the rotational part
  \<open>\<omega>\<^sub>a \<times> \<omega>\<^sub>b\<close> and the scale part 0.
\<close>

theorem d_lieBracketab_by_d_a_is_jacobian:
  "mat7_vec (d_lieBracketab_by_d_a b) a = lieBracket a b \<and>
   lieBracket (a + h) b - lieBracket a b = mat7_vec (d_lieBracketab_by_d_a b) h \<and>
   head3 (lieBracket a b) =
     mat3_vec (SO3_hat (segment3 a)) (head3 b) + mat3_vec (SO3_hat (head3 a)) (segment3 b)
       + coeff6 a *\<^sub>R head3 b - coeff6 b *\<^sub>R head3 a \<and>
   segment3 (lieBracket a b) = cross (segment3 a) (segment3 b) \<and>
   coeff6 (lieBracket a b) = 0"
  by (cases a; cases b; cases h)
     (simp add: d_lieBracketab_by_d_a_def lieBracket_def lieBracket_from_def mat7_setZero_def
        zero_vec7_def one_mat3_def Let_def algebra_simps)

end
